theory Spec2Isabelle
  imports Complex_Main
begin

text \<open>
  A shallow embedding of \<open>bigcommerce_toolkit/__main__.py\<close>: the argument merger
  (\<open>parse_input_data\<close>, \<open>parse_additional_data\<close>, \<open>construct_request_data\<close>), the
  request dispatcher (\<open>make_paginated_request\<close>, \<open>make_request\<close>, \<open>handle_request\<close>)
  and the command tree that \<open>main\<close> compiles (\<open>build_commands\<close>, \<open>action_command\<close>).
  Exceptions are values of a sum type, standard input, the requests sent and the files
  opened are passed as state, and the libraries the program calls (\<open>json.loads\<close>,
  \<open>requests\<close>, \<open>open\<close>, \<open>str.format\<close>) are parameters.
\<close>

section \<open>Python values\<close>

text \<open>
  The exceptions that the modelled functions can let escape. None of them is caught
  anywhere in the program except \<open>JSONDecodeError\<close> inside \<open>parse_input_data\<close>,
  so a result \<open>Inl e\<close> is an uncaught exception: the process ends with a traceback.
  \<open>ValueError\<close> and \<open>RecursionError\<close> are what \<open>json.loads\<close> raises for an integer of
  too many digits and for nesting that is too deep; neither is a \<open>JSONDecodeError\<close>.
  \<open>TransportError\<close> stands for whatever \<open>requests\<close> raises when no response arrives,
  \<open>OSError\<close> for a failure of \<open>open\<close>. \<open>SystemExit\<close> is \<open>sys.exit\<close>, the one exit
  the program asks for itself, after a message on standard error.
\<close>

datatype exn =
    IndexError
  | KeyError
  | AttributeError
  | TypeError
  | JSONDecodeError
  | ValueError
  | RecursionError
  | OSError
  | TransportError
  | SystemExit int

text \<open>
  A Python \<open>float\<close> by its exact value: a finite double is a rational number; negative
  zero and the three special values are kept apart.
\<close>

datatype pyfloat = Finite rat | NegZero | PosInf | NegInf | NaN

text \<open>
  The values \<open>json.loads\<close> produces. \<open>JNull\<close> is Python's \<open>None\<close>. A \<open>dict\<close>
  keeps its insertion order, so it is an association list; \<open>int\<close> is unbounded.
  Strings are lists of 8-bit characters.
\<close>

datatype json =
    JNull
  | JBool bool
  | JInt int
  | JFloat pyfloat
  | JStr string
  | JList "json list"
  | JDict "(string \<times> json) list"

type_synonym dict = "(string \<times> json) list"

text \<open>\<open>d[k] = v\<close>: an existing key keeps its position, a new key goes to the end.\<close>

fun dict_setitem :: "dict \<Rightarrow> string \<Rightarrow> json \<Rightarrow> dict" where
  "dict_setitem [] k v = [(k, v)]"
| "dict_setitem ((k', v') # rest) k v =
     (if k' = k then (k, v) # rest else (k', v') # dict_setitem rest k v)"

text \<open>\<open>d.update(other)\<close>: the entries of \<open>other\<close> are stored into \<open>d\<close> in order.\<close>

fun dict_update :: "dict \<Rightarrow> dict \<Rightarrow> dict" where
  "dict_update d [] = d"
| "dict_update d ((k, v) # other) = dict_update (dict_setitem d k v) other"

text \<open>\<open>d.get(k, default)\<close>.\<close>

definition dict_get :: "dict \<Rightarrow> string \<Rightarrow> json \<Rightarrow> json" where
  "dict_get d k dflt = (case map_of d k of None \<Rightarrow> dflt | Some v \<Rightarrow> v)"

text \<open>Truth value of a Python object, as \<open>if x\<close> and \<open>not x\<close> test it.\<close>

fun truthy :: "json \<Rightarrow> bool" where
  "truthy JNull = False"
| "truthy (JBool b) = b"
| "truthy (JInt n) = (n \<noteq> 0)"
| "truthy (JFloat f) = (f \<noteq> Finite 0 \<and> f \<noteq> NegZero)"
| "truthy (JStr s) = (s \<noteq> [])"
| "truthy (JList xs) = (xs \<noteq> [])"
| "truthy (JDict d) = (d \<noteq> [])"

section \<open>Strings\<close>

text \<open>\<open>s.startswith(p)\<close>.\<close>

fun startswith :: "string \<Rightarrow> string \<Rightarrow> bool" where
  "startswith s [] = True"
| "startswith [] (p # ps) = False"
| "startswith (c # cs) (p # ps) = (c = p \<and> startswith cs ps)"

text \<open>
  \<open>s.lstrip('--')\<close>: the argument is a set of characters, so every leading dash goes,
  however many there are.
\<close>

definition lstrip_dashes :: "string \<Rightarrow> string" where
  "lstrip_dashes s = dropWhile (\<lambda>c. c = CHR ''-'') s"

text \<open>\<open>s.replace('-', '_')\<close>.\<close>

definition replace_dash :: "string \<Rightarrow> string" where
  "replace_dash s = map (\<lambda>c. if c = CHR ''-'' then CHR ''_'' else c) s"

text \<open>
  \<open>str.isspace\<close> on the code points below 256: tab to carriage return, the four
  separators \<open>0x1c\<close> to \<open>0x1f\<close>, space, \<open>0x85\<close> and \<open>0xa0\<close>.
\<close>

definition isspace :: "char \<Rightarrow> bool" where
  "isspace c = (let n = (of_char c :: nat) in
     (9 \<le> n \<and> n \<le> 13) \<or> (28 \<le> n \<and> n \<le> 32) \<or> n = 133 \<or> n = 160)"

text \<open>\<open>s.strip()\<close>.\<close>

definition strip :: "string \<Rightarrow> string" where
  "strip s = rev (dropWhile isspace (rev (dropWhile isspace s)))"

section \<open>Argument merger\<close>

text \<open>
  \<open>json.loads\<close> is a library function: the model takes it as a parameter \<open>loads\<close>,
  which returns the value or the exception raised. Standard input is the text not yet
  read; \<open>sys.stdin.read()\<close> returns all of it and leaves nothing.
\<close>

type_synonym loads = "string \<Rightarrow> exn + json"

text \<open>
  The \<open>try\<close> of \<open>parse_input_data\<close>: \<open>except json.JSONDecodeError\<close> gives the text
  back as it is; every other exception of \<open>json.loads\<close> escapes.
\<close>

definition loads_or_text :: "loads \<Rightarrow> string \<Rightarrow> exn + json" where
  "loads_or_text loads data_str =
     (case loads data_str of
        Inr v \<Rightarrow> Inr v
      | Inl e \<Rightarrow> if e = JSONDecodeError then Inr (JStr data_str) else Inl e)"

definition parse_input_data :: "loads \<Rightarrow> string \<Rightarrow> string \<Rightarrow> exn + (json \<times> string)" where
  "parse_input_data loads data_str stdin =
     (if data_str = ''-''
      then (case loads_or_text loads (strip stdin) of
              Inl e \<Rightarrow> Inl e
            | Inr v \<Rightarrow> Inr (v, []))
      else (case loads_or_text loads data_str of
              Inl e \<Rightarrow> Inl e
            | Inr v \<Rightarrow> Inr (v, stdin)))"

text \<open>The payload key of a flag token: \<open>flag.lstrip('--').replace('-', '_')\<close>.\<close>

definition flag_key :: "string \<Rightarrow> string" where
  "flag_key flag = replace_dash (lstrip_dashes flag)"

text \<open>
  The loop \<open>for i in range(0, len(unknown_args), 2)\<close> of \<open>parse_additional_data\<close>,
  on the tokens from index \<open>i\<close> on. A flag in the last position of an odd-length list
  reads \<open>unknown_args[i+1]\<close> past the end: \<open>IndexError\<close>.
\<close>

fun parse_pairs :: "loads \<Rightarrow> string list \<Rightarrow> dict \<Rightarrow> string \<Rightarrow> exn + (dict \<times> string)" where
  "parse_pairs loads [] additional_data stdin = Inr (additional_data, stdin)"
| "parse_pairs loads [flag] additional_data stdin =
     (if startswith flag ''--'' then Inl IndexError else Inr (additional_data, stdin))"
| "parse_pairs loads (flag # val # rest) additional_data stdin =
     (if startswith flag ''--''
      then (case parse_input_data loads val stdin of
              Inl e \<Rightarrow> Inl e
            | Inr (v, stdin') \<Rightarrow>
                parse_pairs loads rest (dict_setitem additional_data (flag_key flag) v) stdin')
      else parse_pairs loads rest additional_data stdin)"

definition parse_additional_data :: "loads \<Rightarrow> string list \<Rightarrow> string \<Rightarrow> exn + (dict \<times> string)" where
  "parse_additional_data loads unknown_args stdin = parse_pairs loads unknown_args [] stdin"

text \<open>
  \<open>for item in data: item.update(additional_data)\<close>: an item that is not a \<open>dict\<close>
  has no \<open>update\<close>.
\<close>

fun update_items :: "json list \<Rightarrow> dict \<Rightarrow> exn + json list" where
  "update_items [] additional_data = Inr []"
| "update_items (JDict item # rest) additional_data =
     (case update_items rest additional_data of
        Inl e \<Rightarrow> Inl e
      | Inr rest' \<Rightarrow> Inr (JDict (dict_update item additional_data) # rest'))"
| "update_items (_ # rest) additional_data = Inl AttributeError"

text \<open>
  The first line of \<open>construct_request_data\<close>: \<open>args.get('data')\<close> is \<open>None\<close> or the
  text of the \<open>--data\<close> option; \<open>None\<close> and the empty string are false.
\<close>

definition primary_data :: "loads \<Rightarrow> string option \<Rightarrow> string \<Rightarrow> exn + (json \<times> string)" where
  "primary_data loads data stdin =
     (case data of
        None \<Rightarrow> Inr (JDict [], stdin)
      | Some s \<Rightarrow> if s = [] then Inr (JDict [], stdin) else parse_input_data loads s stdin)"

definition construct_request_data ::
  "loads \<Rightarrow> string option \<Rightarrow> string list \<Rightarrow> string \<Rightarrow> exn + (json \<times> string)" where
  "construct_request_data loads data unknown_args stdin =
     (case primary_data loads data stdin of
        Inl e \<Rightarrow> Inl e
      | Inr (d, stdin1) \<Rightarrow>
          (case parse_additional_data loads unknown_args stdin1 of
             Inl e \<Rightarrow> Inl e
           | Inr (additional_data, stdin2) \<Rightarrow>
               (case d of
                  JList items \<Rightarrow>
                    (case update_items items additional_data of
                       Inl e \<Rightarrow> Inl e
                     | Inr items' \<Rightarrow> Inr (JList items', stdin2))
                | JDict m \<Rightarrow> Inr (JDict (dict_update m additional_data), stdin2)
                | _ \<Rightarrow> Inl AttributeError)))"

section \<open>Request dispatcher\<close>

text \<open>
  The values of an action's table entry in the command structure: a \<open>str\<close> or a
  \<open>bool\<close>. \<open>action.get(key, None)\<close> is then an \<open>action_value option\<close>, with \<open>None\<close>
  for Python's \<open>None\<close>.
\<close>

datatype action_value = Text string | Flag bool

type_synonym action = "(string \<times> action_value) list"

text \<open>What \<open>open(name, 'rb')\<close> is given and what it returns.\<close>

datatype file_name = Path string | Fd int

datatype file_object = BufferedReader file_name string

text \<open>The file system: the bytes behind a name, or the exception \<open>open\<close> raises for it.\<close>

type_synonym filesystem = "file_name \<Rightarrow> exn + string"

text \<open>
  A call of \<open>requests.request\<close>: its arguments. \<open>JNull\<close> is an argument that is
  \<open>None\<close>; a header whose value is \<open>None\<close> is left to the library.
\<close>

record request =
  req_method :: action_value
  req_url :: string
  req_headers :: "(string \<times> string option) list"
  req_json :: json
  req_data :: json
  req_params :: json
  req_files :: "(action_value option \<times> file_object) list option"

text \<open>
  A response: its status code, its raw body, and what \<open>response.json()\<close> gives, the
  parsed body or the exception raised for a body that is not JSON.
\<close>

record response =
  status_code :: int
  content :: string
  response_json :: "exn + json"

text \<open>
  The remote side answers a request knowing the requests sent before it; no answer is an
  exception. The world of a dispatch is the requests issued so far and the files that the
  program has opened and not closed. What the runtime does to a file object that is no
  longer referenced is outside the model.
\<close>

type_synonym transport = "request list \<Rightarrow> request \<Rightarrow> exn + response"

record world =
  sent :: "request list"
  open_files :: "file_object list"

definition requests_request :: "transport \<Rightarrow> request \<Rightarrow> world \<Rightarrow> (exn + response) \<times> world" where
  "requests_request srv rq w = (srv (sent w) rq, w\<lparr>sent := sent w @ [rq]\<rparr>)"

text \<open>Iterating over a value: a list gives its items, a dict its keys, a string its characters.\<close>

fun py_iter :: "json \<Rightarrow> exn + json list" where
  "py_iter (JList xs) = Inr xs"
| "py_iter (JDict d) = Inr (map (\<lambda>kv. JStr (fst kv)) d)"
| "py_iter (JStr s) = Inr (map (\<lambda>c. JStr [c]) s)"
| "py_iter _ = Inl TypeError"

text \<open>\<open>results.extend(x)\<close>.\<close>

definition list_extend :: "json list \<Rightarrow> json \<Rightarrow> exn + json list" where
  "list_extend results x =
     (case py_iter x of Inl e \<Rightarrow> Inl e | Inr xs \<Rightarrow> Inr (results @ xs))"

text \<open>\<open>x.get(k, default)\<close> on any value: only a dict has \<open>get\<close>.\<close>

fun py_get :: "json \<Rightarrow> string \<Rightarrow> json \<Rightarrow> exn + json" where
  "py_get (JDict d) k dflt = Inr (dict_get d k dflt)"
| "py_get _ k dflt = Inl AttributeError"

text \<open>\<open>page >= x\<close> for an \<open>int\<close> page: numbers compare by value, nothing else compares.\<close>

fun int_ge :: "int \<Rightarrow> json \<Rightarrow> exn + bool" where
  "int_ge page (JInt n) = Inr (n \<le> page)"
| "int_ge page (JBool b) = Inr ((if b then 1 else 0) \<le> page)"
| "int_ge page (JFloat (Finite q)) = Inr (q \<le> of_int page)"
| "int_ge page (JFloat NegZero) = Inr (0 \<le> page)"
| "int_ge page (JFloat PosInf) = Inr False"
| "int_ge page (JFloat NegInf) = Inr True"
| "int_ge page (JFloat NaN) = Inr False"
| "int_ge page _ = Inl TypeError"

text \<open>\<open>{**params, 'page': page} if params else {'page': page}\<close>.\<close>

definition paginated_params :: "json \<Rightarrow> int \<Rightarrow> exn + dict" where
  "paginated_params params page =
     (if truthy params
      then (case params of
              JDict d \<Rightarrow> Inr (dict_setitem d ''page'' (JInt page))
            | _ \<Rightarrow> Inl TypeError)
      else Inr [(''page'', JInt page)])"

text \<open>\<open>json_response.get('meta', {}).get('pagination', {}).get('total_pages', 0)\<close>.\<close>

definition total_pages :: "json \<Rightarrow> exn + json" where
  "total_pages json_response =
     (case py_get json_response ''meta'' (JDict []) of
        Inl e \<Rightarrow> Inl e
      | Inr meta \<Rightarrow>
          (case py_get meta ''pagination'' (JDict []) of
             Inl e \<Rightarrow> Inl e
           | Inr pagination \<Rightarrow> py_get pagination ''total_pages'' (JInt 0)))"

text \<open>
  The two statements of the loop body after a 200 response is parsed: extend the results,
  then decide whether this was the last page.
\<close>

definition page_step :: "json \<Rightarrow> json list \<Rightarrow> int \<Rightarrow> exn + (json list \<times> bool)" where
  "page_step json_response results page =
     (case py_get json_response ''data'' (JList []) of
        Inl e \<Rightarrow> Inl e
      | Inr d \<Rightarrow>
          (case list_extend results d of
             Inl e \<Rightarrow> Inl e
           | Inr results' \<Rightarrow>
               (case total_pages json_response of
                  Inl e \<Rightarrow> Inl e
                | Inr t \<Rightarrow>
                    (case int_ge page t of
                       Inl e \<Rightarrow> Inl e
                     | Inr stop \<Rightarrow> Inr (results', stop)))))"

text \<open>\<open>requests.get(url, headers=headers, params=paginated_params)\<close>.\<close>

definition page_request :: "string \<Rightarrow> (string \<times> string option) list \<Rightarrow> dict \<Rightarrow> request" where
  "page_request url headers pp =
     \<lparr>req_method = Text ''GET'', req_url = url, req_headers = headers, req_json = JNull,
      req_data = JNull, req_params = JDict pp, req_files = None\<rparr>"

text \<open>
  The \<open>while True\<close> loop of \<open>make_paginated_request\<close>. Nothing bounds the number of
  pages, so the loop may run forever: the result is \<open>None\<close> then.
\<close>

partial_function (option) make_paginated_request_loop ::
  "transport \<Rightarrow> string \<Rightarrow> (string \<times> string option) list \<Rightarrow> json \<Rightarrow> json list \<Rightarrow> int \<Rightarrow> world
   \<Rightarrow> ((exn + json) \<times> world) option" where
  "make_paginated_request_loop srv url headers params results page w =
     (case paginated_params params page of
        Inl e \<Rightarrow> Some (Inl e, w)
      | Inr pp \<Rightarrow>
          (case requests_request srv (page_request url headers pp) w of
             (Inl e, w') \<Rightarrow> Some (Inl e, w')
           | (Inr r, w') \<Rightarrow>
               if status_code r \<noteq> 200 then Some (response_json r, w')
               else (case response_json r of
                       Inl e \<Rightarrow> Some (Inl e, w')
                     | Inr json_response \<Rightarrow>
                         (case page_step json_response results page of
                            Inl e \<Rightarrow> Some (Inl e, w')
                          | Inr (results', stop) \<Rightarrow>
                              if stop then Some (Inr (JDict [(''data'', JList results')]), w')
                              else make_paginated_request_loop srv url headers params
                                     results' (page + 1) w'))))"

declare make_paginated_request_loop.simps [code]

definition make_paginated_request ::
  "transport \<Rightarrow> string \<Rightarrow> (string \<times> string option) list \<Rightarrow> json \<Rightarrow> world
   \<Rightarrow> ((exn + json) \<times> world) option" where
  "make_paginated_request srv url headers params w =
     make_paginated_request_loop srv url headers params [] 1 w"

text \<open>\<open>not files\<close> is false only for a dict with an entry.\<close>

definition files_given :: "(action_value option \<times> file_object) list option \<Rightarrow> bool" where
  "files_given files = (case files of None \<Rightarrow> False | Some fs \<Rightarrow> fs \<noteq> [])"

definition make_url :: "string \<Rightarrow> string \<Rightarrow> string" where
  "make_url store_hash endpoint = ''https://api.bigcommerce.com/stores/'' @ store_hash @ ''/'' @ endpoint"

definition make_headers ::
  "string \<Rightarrow> (action_value option \<times> file_object) list option \<Rightarrow> (string \<times> string option) list" where
  "make_headers auth_token files =
     [(''X-Auth-Token'', Some auth_token),
      (''Accept'', Some ''application/json''),
      (''Content-Type'', if \<not> files_given files then Some ''application/json'' else None)]"

text \<open>The mapping of a response to the result, the last three lines of \<open>make_request\<close>.\<close>

definition response_result :: "response \<Rightarrow> exn + json" where
  "response_result r =
     (if status_code r = 200 \<or> status_code r = 204
      then (if content r \<noteq> [] then response_json r
            else Inr (JDict [(''status'', JInt (status_code r)), (''title'', JStr ''No Content'')]))
      else response_json r)"

text \<open>
  The arguments of the call \<open>requests.request(method, url, headers=headers, json=data if
  not files else None, data=data if files else None, params=params, files=files)\<close>.
\<close>

definition request_args ::
  "action_value \<Rightarrow> string \<Rightarrow> (string \<times> string option) list \<Rightarrow> json \<Rightarrow> json
   \<Rightarrow> (action_value option \<times> file_object) list option \<Rightarrow> request" where
  "request_args method url headers data params files =
     \<lparr>req_method = method, req_url = url, req_headers = headers,
      req_json = (if \<not> files_given files then data else JNull),
      req_data = (if files_given files then data else JNull),
      req_params = params, req_files = files\<rparr>"

definition make_request ::
  "transport \<Rightarrow> action_value \<Rightarrow> string \<Rightarrow> json \<Rightarrow> json \<Rightarrow> bool \<Rightarrow> string \<Rightarrow> string
   \<Rightarrow> (action_value option \<times> file_object) list option \<Rightarrow> world \<Rightarrow> ((exn + json) \<times> world) option" where
  "make_request srv method endpoint data params all_pages store_hash auth_token files w =
     (let url = make_url store_hash endpoint;
          headers = make_headers auth_token files
      in if all_pages \<and> method = Text ''GET''
         then make_paginated_request srv url headers params w
         else (case requests_request srv (request_args method url headers data params files) w of
                 (Inl e, w') \<Rightarrow> Some (Inl e, w')
               | (Inr r, w') \<Rightarrow> Some (response_result r, w')))"

text \<open>\<open>sub in s\<close> for two strings.\<close>

fun contains :: "string \<Rightarrow> string \<Rightarrow> bool" where
  "contains [] sub = (sub = [])"
| "contains (c # cs) sub = (startswith (c # cs) sub \<or> contains cs sub)"

text \<open>\<open>x == b\<close> for a \<open>bool\<close> \<open>b\<close>: a \<open>bool\<close> is the number 1 or 0.\<close>

fun eq_bool :: "json \<Rightarrow> bool \<Rightarrow> bool" where
  "eq_bool (JBool c) b = (c = b)"
| "eq_bool (JInt n) b = (n = (if b then 1 else 0))"
| "eq_bool (JFloat (Finite q)) b = (q = (if b then 1 else 0))"
| "eq_bool (JFloat NegZero) b = (\<not> b)"
| "eq_bool _ b = False"

text \<open>
  \<open>multipart_parameter in request_data\<close>. The keys of a dict are strings; a list is
  searched for an equal item; a string is searched for a substring; nothing else is a
  container.
\<close>

fun py_in :: "action_value option \<Rightarrow> json \<Rightarrow> exn + bool" where
  "py_in (Some (Text k)) (JDict d) = Inr (k \<in> fst ` set d)"
| "py_in None (JDict d) = Inr False"
| "py_in (Some (Flag b)) (JDict d) = Inr False"
| "py_in None (JList xs) = Inr (JNull \<in> set xs)"
| "py_in (Some (Text k)) (JList xs) = Inr (JStr k \<in> set xs)"
| "py_in (Some (Flag b)) (JList xs) = Inr (\<exists>x \<in> set xs. eq_bool x b)"
| "py_in (Some (Text k)) (JStr s) = Inr (contains s k)"
| "py_in _ _ = Inl TypeError"

text \<open>
  \<open>request_data.pop(multipart_parameter)\<close>: the value removed and what is left. A list
  pops by index, and a \<open>bool\<close> is an index; a string has no \<open>pop\<close>.
\<close>

fun py_pop :: "action_value option \<Rightarrow> json \<Rightarrow> exn + (json \<times> json)" where
  "py_pop (Some (Text k)) (JDict d) =
     (case map_of d k of
        None \<Rightarrow> Inl KeyError
      | Some v \<Rightarrow> Inr (v, JDict (filter (\<lambda>kv. fst kv \<noteq> k) d)))"
| "py_pop None (JDict d) = Inl KeyError"
| "py_pop (Some (Flag b)) (JDict d) = Inl KeyError"
| "py_pop (Some (Flag b)) (JList xs) =
     (let i = (if b then 1 else 0 :: nat)
      in if i < length xs then Inr (xs ! i, JList (take i xs @ drop (Suc i) xs))
         else Inl IndexError)"
| "py_pop _ (JList xs) = Inl TypeError"
| "py_pop _ _ = Inl AttributeError"

text \<open>\<open>open(v, 'rb')\<close>: a string is a path, an integer a file descriptor.\<close>

definition open_name :: "filesystem \<Rightarrow> file_name \<Rightarrow> exn + file_object" where
  "open_name fs n = (case fs n of Inl e \<Rightarrow> Inl e | Inr bytes \<Rightarrow> Inr (BufferedReader n bytes))"

fun py_open :: "filesystem \<Rightarrow> json \<Rightarrow> exn + file_object" where
  "py_open fs (JStr p) = open_name fs (Path p)"
| "py_open fs (JInt n) = open_name fs (Fd n)"
| "py_open fs (JBool b) = open_name fs (Fd (if b then 1 else 0))"
| "py_open fs _ = Inl TypeError"

text \<open>
  \<open>files = {multipart_parameter: open(request_data.pop(multipart_parameter), 'rb')}\<close>.
  The opened file joins the open files of the world; nothing in the program closes it.
\<close>

definition open_upload ::
  "filesystem \<Rightarrow> action_value option \<Rightarrow> json \<Rightarrow> world
   \<Rightarrow> exn + ((action_value option \<times> file_object) list option \<times> json \<times> world)" where
  "open_upload fs multipart_parameter request_data w =
     (case py_pop multipart_parameter request_data of
        Inl e \<Rightarrow> Inl e
      | Inr (v, request_data') \<Rightarrow>
          (case py_open fs v of
             Inl e \<Rightarrow> Inl e
           | Inr f \<Rightarrow>
               Inr (Some [(multipart_parameter, f)], request_data',
                    w\<lparr>open_files := open_files w @ [f]\<rparr>)))"

text \<open>
  \<open>handle_request\<close>. With \<open>verbose\<close> the endpoint and the payload are printed on
  standard error, which the model does not follow.
\<close>

definition handle_request ::
  "filesystem \<Rightarrow> transport \<Rightarrow> string \<Rightarrow> action_value \<Rightarrow> bool \<Rightarrow> action_value option \<Rightarrow> json
   \<Rightarrow> string \<Rightarrow> string \<Rightarrow> bool \<Rightarrow> world \<Rightarrow> ((exn + json) \<times> world) option" where
  "handle_request fs srv endpoint method all_pages multipart_parameter request_data
       store_hash auth_token verbose w =
     (case py_in multipart_parameter request_data of
        Inl e \<Rightarrow> Some (Inl e, w)
      | Inr is_multipart \<Rightarrow>
          (case (if is_multipart then open_upload fs multipart_parameter request_data w
                 else Inr (None, request_data, w)) of
             Inl e \<Rightarrow> Some (Inl e, w)
           | Inr (files, request_data', w') \<Rightarrow>
               make_request srv method endpoint
                 (if method = Text ''POST'' \<or> method = Text ''PUT'' then request_data' else JNull)
                 (if method = Text ''GET'' then request_data' else JNull)
                 all_pages store_hash auth_token files w'))"

section \<open>Command tree\<close>

text \<open>
  A node of the command structure: the \<open>command\<close> name, the \<open>endpoint\<close> when the key
  is there, the \<open>actions\<close> and the \<open>subcommands\<close> (empty when the key is absent, as
  \<open>get(key, [])\<close> reads them). An action stays a dict, read by key.
\<close>

datatype node =
  Node (node_command: string) (node_endpoint: "string option")
       (node_actions: "action list") (node_subcommands: "node list")

text \<open>
  A registered command: the names of the groups above it, its own name, the endpoint
  template and the action it closes over.
\<close>

record command =
  cmd_path :: "string list"
  cmd_name :: action_value
  endpoint_format :: string
  cmd_action :: action

text \<open>
  \<open>add_action_commands\<close>: one command per action, named \<open>action['action']\<close>, with
  \<open>endpoint_format = command_dict.get('endpoint', '')\<close>. The options registered for the
  placeholders of the template are not part of the model.
\<close>

fun create_action_commands :: "string list \<Rightarrow> node \<Rightarrow> action list \<Rightarrow> exn + command list" where
  "create_action_commands group_path command_dict [] = Inr []"
| "create_action_commands group_path command_dict (a # rest) =
     (case map_of a ''action'' of
        None \<Rightarrow> Inl KeyError
      | Some name \<Rightarrow>
          (case create_action_commands group_path command_dict rest of
             Inl e \<Rightarrow> Inl e
           | Inr cs \<Rightarrow>
               Inr (\<lparr>cmd_path = group_path, cmd_name = name,
                     endpoint_format = (case node_endpoint command_dict of None \<Rightarrow> [] | Some t \<Rightarrow> t),
                     cmd_action = a\<rparr> # cs)))"

definition add_action_commands :: "string list \<Rightarrow> node \<Rightarrow> exn + command list" where
  "add_action_commands group_path command_dict =
     create_action_commands group_path command_dict (node_actions command_dict)"

text \<open>\<open>add_subcommand_groups\<close>: one group per subcommand, with that subcommand's actions.\<close>

fun add_subcommand_groups :: "string list \<Rightarrow> node list \<Rightarrow> exn + command list" where
  "add_subcommand_groups group_path [] = Inr []"
| "add_subcommand_groups group_path (subcmd # rest) =
     (case add_action_commands (group_path @ [node_command subcmd]) subcmd of
        Inl e \<Rightarrow> Inl e
      | Inr cs \<Rightarrow>
          (case add_subcommand_groups group_path rest of
             Inl e \<Rightarrow> Inl e
           | Inr cs' \<Rightarrow> Inr (cs @ cs')))"

text \<open>\<open>build_commands\<close>: every command registered, in the order of registration.\<close>

fun build_commands :: "node list \<Rightarrow> exn + command list" where
  "build_commands [] = Inr []"
| "build_commands (cmd # rest) =
     (case add_action_commands [node_command cmd] cmd of
        Inl e \<Rightarrow> Inl e
      | Inr cs \<Rightarrow>
          (case add_subcommand_groups [node_command cmd] (node_subcommands cmd) of
             Inl e \<Rightarrow> Inl e
           | Inr cs' \<Rightarrow>
               (case build_commands rest of
                  Inl e \<Rightarrow> Inl e
                | Inr cs'' \<Rightarrow> Inr (cs @ cs' @ cs''))))"

text \<open>The structure that \<open>main\<close> builds its commands from.\<close>

definition commands_structure :: "node list" where
  "commands_structure = [
    Node ''product'' (Some ''v3/catalog/products/{product_id}'')
      [[(''action'', Text ''get''), (''method'', Text ''GET'')],
       [(''action'', Text ''add''), (''method'', Text ''POST'')],
       [(''action'', Text ''update''), (''method'', Text ''PUT'')],
       [(''action'', Text ''delete''), (''method'', Text ''DELETE'')]]
      [
        Node ''metafield'' (Some ''v3/catalog/products/{product_id}/metafields/{metafield_id}'')
          [[(''action'', Text ''get''), (''method'', Text ''GET'')],
           [(''action'', Text ''update''), (''method'', Text ''PUT'')],
           [(''action'', Text ''delete''), (''method'', Text ''DELETE'')]]
          [],
        Node ''metafields'' (Some ''v3/catalog/products/{product_id}/metafields'')
          [[(''action'', Text ''get''), (''method'', Text ''GET'')],
           [(''action'', Text ''get-all''), (''method'', Text ''GET''), (''allPages'', Flag True)],
           [(''action'', Text ''add''), (''method'', Text ''POST'')]]
          [],
        Node ''custom-field'' (Some ''v3/catalog/products/{product_id}/custom-fields/{custom_field_id}'')
          [[(''action'', Text ''get''), (''method'', Text ''GET'')],
           [(''action'', Text ''update''), (''method'', Text ''PUT'')],
           [(''action'', Text ''delete''), (''method'', Text ''DELETE'')]]
          [],
        Node ''custom-fields'' (Some ''v3/catalog/products/{product_id}/custom-fields'')
          [[(''action'', Text ''get''), (''method'', Text ''GET'')],
           [(''action'', Text ''get-all''), (''method'', Text ''GET''), (''allPages'', Flag True)],
           [(''action'', Text ''add''), (''method'', Text ''POST'')]]
          [],
        Node ''image'' (Some ''v3/catalog/products/{product_id}/images/{image_id}'')
          [[(''action'', Text ''get''), (''method'', Text ''GET'')],
           [(''action'', Text ''update''), (''method'', Text ''PUT'')],
           [(''action'', Text ''delete''), (''method'', Text ''DELETE'')]]
          [],
        Node ''images'' (Some ''v3/catalog/products/{product_id}/images'')
          [[(''action'', Text ''get''), (''method'', Text ''GET'')],
           [(''action'', Text ''get-all''), (''method'', Text ''GET''), (''allPages'', Flag True)],
           [(''action'', Text ''add''), (''method'', Text ''POST''), (''multipartParamter'', Text ''image_file'')]]
          []
      ],
    Node ''products'' (Some ''v3/catalog/products'')
      [[(''action'', Text ''get''), (''method'', Text ''GET'')],
       [(''action'', Text ''get-all''), (''method'', Text ''GET''), (''allPages'', Flag True)],
       [(''action'', Text ''add''), (''method'', Text ''POST'')],
       [(''action'', Text ''update''), (''method'', Text ''PUT'')],
       [(''action'', Text ''delete''), (''method'', Text ''DELETE'')]]
      [],
    Node ''category-tree'' (Some ''v3/catalog/trees/{tree_id}/categories'')
      [[(''action'', Text ''get''), (''method'', Text ''GET'')],
       [(''action'', Text ''update''), (''method'', Text ''PUT'')],
       [(''action'', Text ''delete''), (''method'', Text ''DELETE'')]]
      [],
    Node ''category-trees'' (Some ''v3/catalog/trees'')
      [[(''action'', Text ''get''), (''method'', Text ''GET'')],
       [(''action'', Text ''get-all''), (''method'', Text ''GET''), (''allPages'', Flag True)],
       [(''action'', Text ''add''), (''method'', Text ''POST'')],
       [(''action'', Text ''update''), (''method'', Text ''PUT'')],
       [(''action'', Text ''delete''), (''method'', Text ''DELETE'')]]
      [],
    Node ''category'' None
      []
      [
        Node ''metafield'' (Some ''v3/catalog/categories/{category_id}/metafields/{metafield_id}'')
          [[(''action'', Text ''get''), (''method'', Text ''GET'')],
           [(''action'', Text ''update''), (''method'', Text ''PUT'')],
           [(''action'', Text ''delete''), (''method'', Text ''DELETE'')]]
          [],
        Node ''metafields'' (Some ''v3/catalog/categories/{category_id}/metafields'')
          [[(''action'', Text ''get''), (''method'', Text ''GET'')],
           [(''action'', Text ''get-all''), (''method'', Text ''GET''), (''allPages'', Flag True)],
           [(''action'', Text ''add''), (''method'', Text ''POST'')]]
          [],
        Node ''image'' (Some ''v3/catalog/categories/{category_id}/image'')
          [[(''action'', Text ''get''), (''method'', Text ''GET'')],
           [(''action'', Text ''add''), (''method'', Text ''POST''), (''multipartParamter'', Text ''image_file'')],
           [(''action'', Text ''update''), (''method'', Text ''PUT'')],
           [(''action'', Text ''delete''), (''method'', Text ''DELETE'')]]
          []
      ],
    Node ''categories'' (Some ''v3/catalog/trees/categories'')
      [[(''action'', Text ''get''), (''method'', Text ''GET'')],
       [(''action'', Text ''get-all''), (''method'', Text ''GET''), (''allPages'', Flag True)],
       [(''action'', Text ''add''), (''method'', Text ''POST'')],
       [(''action'', Text ''update''), (''method'', Text ''PUT'')],
       [(''action'', Text ''delete''), (''method'', Text ''DELETE'')]]
      [],
    Node ''customer'' None
      []
      [
        Node ''metafields'' (Some ''v3/customers/{customer_id}/metafields'')
          [[(''action'', Text ''get''), (''method'', Text ''GET'')],
           [(''action'', Text ''add''), (''method'', Text ''POST'')],
           [(''action'', Text ''update''), (''method'', Text ''PUT'')],
           [(''action'', Text ''delete''), (''method'', Text ''DELETE'')]]
          []
      ],
    Node ''customers'' (Some ''v3/customers'')
      [[(''action'', Text ''get''), (''method'', Text ''GET'')],
       [(''action'', Text ''get-all''), (''method'', Text ''GET''), (''allPages'', Flag True)],
       [(''action'', Text ''add''), (''method'', Text ''POST'')],
       [(''action'', Text ''update''), (''method'', Text ''PUT'')],
       [(''action'', Text ''delete''), (''method'', Text ''DELETE'')]]
      [],
    Node ''order'' (Some ''v2/orders/{order_id}'')
      []
      [
        Node ''metafields'' (Some ''v3/orders/{order_id}/metafields'')
          [[(''action'', Text ''get''), (''method'', Text ''GET'')],
           [(''action'', Text ''add''), (''method'', Text ''POST'')],
           [(''action'', Text ''update''), (''method'', Text ''PUT'')],
           [(''action'', Text ''delete''), (''method'', Text ''DELETE'')]]
          []
      ],
    Node ''orders'' (Some ''v2/orders'')
      [[(''action'', Text ''get''), (''method'', Text ''GET'')],
       [(''action'', Text ''get-all''), (''method'', Text ''GET''), (''allPages'', Flag True)],
       [(''action'', Text ''add''), (''method'', Text ''POST'')],
       [(''action'', Text ''delete''), (''method'', Text ''DELETE'')]]
      [],
    Node ''page'' (Some ''v3/content/pages/{page_id}'')
      [[(''action'', Text ''get''), (''method'', Text ''GET'')],
       [(''action'', Text ''update''), (''method'', Text ''PUT'')],
       [(''action'', Text ''delete''), (''method'', Text ''DELETE'')]]
      [],
    Node ''pages'' (Some ''v3/content/pages'')
      [[(''action'', Text ''get''), (''method'', Text ''GET'')],
       [(''action'', Text ''get-all''), (''method'', Text ''GET''), (''allPages'', Flag True)],
       [(''action'', Text ''add''), (''method'', Text ''POST'')],
       [(''action'', Text ''update''), (''method'', Text ''PUT'')],
       [(''action'', Text ''delete''), (''method'', Text ''DELETE'')]]
      [],
    Node ''redirects'' (Some ''v3/storefront/redirects'')
      [[(''action'', Text ''get''), (''method'', Text ''GET'')],
       [(''action'', Text ''get-all''), (''method'', Text ''GET''), (''allPages'', Flag True)],
       [(''action'', Text ''add''), (''method'', Text ''POST'')],
       [(''action'', Text ''update''), (''method'', Text ''PUT'')],
       [(''action'', Text ''delete''), (''method'', Text ''DELETE'')]]
      [],
    Node ''site'' (Some ''v3/sites/{site_id}'')
      [[(''action'', Text ''get''), (''method'', Text ''GET'')],
       [(''action'', Text ''update''), (''method'', Text ''PUT'')],
       [(''action'', Text ''delete''), (''method'', Text ''DELETE'')]]
      [],
    Node ''sites'' (Some ''v3/sites'')
      [[(''action'', Text ''get''), (''method'', Text ''GET'')],
       [(''action'', Text ''get-all''), (''method'', Text ''GET''), (''allPages'', Flag True)],
       [(''action'', Text ''add''), (''method'', Text ''POST'')]]
      [],
    Node ''widget-template'' (Some ''v3/content/widget-templates/{uuid}'')
      [[(''action'', Text ''get''), (''method'', Text ''GET'')],
       [(''action'', Text ''update''), (''method'', Text ''PUT'')],
       [(''action'', Text ''delete''), (''method'', Text ''DELETE'')]]
      [
        Node ''render'' (Some ''v3/content/widget-templates/{uuid}/preview'')
          [[(''action'', Text ''add''), (''method'', Text ''POST'')]]
          []
      ],
    Node ''widget-templates'' (Some ''v3/content/widget-templates'')
      [[(''action'', Text ''get''), (''method'', Text ''GET'')],
       [(''action'', Text ''get-all''), (''method'', Text ''GET''), (''allPages'', Flag True)],
       [(''action'', Text ''add''), (''method'', Text ''POST'')]]
      [],
    Node ''widget'' (Some ''v3/content/widgets/{uuid}'')
      [[(''action'', Text ''get''), (''method'', Text ''GET'')],
       [(''action'', Text ''update''), (''method'', Text ''PUT'')],
       [(''action'', Text ''delete''), (''method'', Text ''DELETE'')]]
      [],
    Node ''widgets'' (Some ''v3/content/widgets'')
      [[(''action'', Text ''get''), (''method'', Text ''GET'')],
       [(''action'', Text ''get-all''), (''method'', Text ''GET''), (''allPages'', Flag True)],
       [(''action'', Text ''add''), (''method'', Text ''POST'')]]
      [],
    Node ''placement'' (Some ''v3/content/placements/{uuid}'')
      [[(''action'', Text ''get''), (''method'', Text ''GET'')],
       [(''action'', Text ''update''), (''method'', Text ''PUT'')],
       [(''action'', Text ''delete''), (''method'', Text ''DELETE'')]]
      [],
    Node ''placements'' (Some ''v3/content/placements'')
      [[(''action'', Text ''get''), (''method'', Text ''GET'')],
       [(''action'', Text ''get-all''), (''method'', Text ''GET''), (''allPages'', Flag True)],
       [(''action'', Text ''add''), (''method'', Text ''POST'')]]
      [],
    Node ''regions'' (Some ''v3/content/regions'')
      [[(''action'', Text ''get''), (''method'', Text ''GET'')]]
      [],
    Node ''custom-template-associations'' (Some ''v3/storefront/custom-template-associations'')
      [[(''action'', Text ''get''), (''method'', Text ''GET'')],
       [(''action'', Text ''get-all''), (''method'', Text ''GET''), (''allPages'', Flag True)],
       [(''action'', Text ''add''), (''method'', Text ''PUT'')],
       [(''action'', Text ''update''), (''method'', Text ''PUT'')],
       [(''action'', Text ''delete''), (''method'', Text ''DELETE'')]]
      [],
    Node ''themes'' (Some ''v3/themes'')
      [[(''action'', Text ''get''), (''method'', Text ''GET'')],
       [(''action'', Text ''get-all''), (''method'', Text ''GET''), (''allPages'', Flag True)],
       [(''action'', Text ''upload''), (''method'', Text ''POST'')]]
      [
        Node ''custom-templates'' (Some ''v3/themes/custom-templates/{version_uuid}'')
          [[(''action'', Text ''get''), (''method'', Text ''GET'')],
           [(''action'', Text ''get-all''), (''method'', Text ''GET''), (''allPages'', Flag True)]]
          [],
        Node ''activate'' (Some ''v3/themes/actions/activate'')
          [[(''action'', Text ''set''), (''method'', Text ''POST'')]]
          []
      ],
    Node ''theme'' (Some ''v3/themes/{uuid}'')
      [[(''action'', Text ''get''), (''method'', Text ''GET'')],
       [(''action'', Text ''delete''), (''method'', Text ''DELETE'')]]
      [],
    Node ''channels'' (Some ''v3/channels'')
      [[(''action'', Text ''get''), (''method'', Text ''GET'')],
       [(''action'', Text ''get-all''), (''method'', Text ''GET''), (''allPages'', Flag True)],
       [(''action'', Text ''add''), (''method'', Text ''POST'')]]
      [],
    Node ''channel'' (Some ''v3/channels/{channel_id}'')
      [[(''action'', Text ''get''), (''method'', Text ''GET'')],
       [(''action'', Text ''update''), (''method'', Text ''PUT'')]]
      [
        Node ''active-theme'' (Some ''v3/channels/{channel_id}/active-theme'')
          [[(''action'', Text ''get''), (''method'', Text ''GET'')]]
          []
      ]
  ]"

text \<open>
  The loop over \<open>kwargs\<close> in \<open>action_command\<close>: a value \<open>-\<close> is replaced by what is
  left on standard input.
\<close>

fun read_kwargs :: "(string \<times> string) list \<Rightarrow> string \<Rightarrow> (string \<times> string) list \<times> string" where
  "read_kwargs [] stdin = ([], stdin)"
| "read_kwargs ((k, v) # rest) stdin =
     (if v = ''-''
      then (case read_kwargs rest [] of (rest', stdin') \<Rightarrow> ((k, strip stdin) # rest', stdin'))
      else (case read_kwargs rest stdin of (rest', stdin') \<Rightarrow> ((k, v) # rest', stdin')))"

text \<open>Truth value of a table entry.\<close>

fun truthy_value :: "action_value \<Rightarrow> bool" where
  "truthy_value (Text s) = (s \<noteq> [])"
| "truthy_value (Flag b) = b"

text \<open>
  The body of \<open>action_command\<close> for a registered command. \<open>str.format\<close> is a builtin,
  taken as the parameter \<open>str_format\<close>. The result is the response that is printed;
  without an endpoint template the command reports it and exits with status 1.
\<close>

definition action_command ::
  "filesystem \<Rightarrow> transport \<Rightarrow> loads \<Rightarrow> (string \<Rightarrow> (string \<times> string) list \<Rightarrow> exn + string)
   \<Rightarrow> command \<Rightarrow> string option \<Rightarrow> string list \<Rightarrow> (string \<times> string) list
   \<Rightarrow> string \<Rightarrow> string \<Rightarrow> bool \<Rightarrow> string \<Rightarrow> world \<Rightarrow> ((exn + json) \<times> world) option" where
  "action_command fs srv loads str_format c data unknown_args kwargs
       store_hash auth_token verbose stdin w =
     (case construct_request_data loads data unknown_args stdin of
        Inl e \<Rightarrow> Some (Inl e, w)
      | Inr (request_data, stdin1) \<Rightarrow>
          (case read_kwargs kwargs stdin1 of
             (kwargs', stdin2) \<Rightarrow>
               if endpoint_format c \<noteq> []
               then (case str_format (endpoint_format c) kwargs' of
                       Inl e \<Rightarrow> Some (Inl e, w)
                     | Inr endpoint \<Rightarrow>
                         (case map_of (cmd_action c) ''method'' of
                            None \<Rightarrow> Some (Inl KeyError, w)
                          | Some method \<Rightarrow>
                              handle_request fs srv endpoint method
                                (truthy_value (case map_of (cmd_action c) ''allPages'' of
                                                 None \<Rightarrow> Flag False | Some v \<Rightarrow> v))
                                (map_of (cmd_action c) ''multipartParameter'')
                                request_data store_hash auth_token verbose w))
               else Some (Inl (SystemExit 1), w)))"

section \<open>Vocabulary of the properties\<close>

text \<open>
  The keys that the flag/value pairs of a token list write, in order: what
  \<open>parse_pairs\<close> stores, without the values.
\<close>

fun flag_keys :: "string list \<Rightarrow> string list" where
  "flag_keys (flag # val # rest) =
     (if startswith flag ''--'' then flag_key flag # flag_keys rest else flag_keys rest)"
| "flag_keys _ = []"

text \<open>A payload shape the merge has no branch for: neither a dict nor a list of dicts.\<close>

fun is_dict :: "json \<Rightarrow> bool" where
  "is_dict (JDict m) = True"
| "is_dict _ = False"

fun unsupported_shape :: "json \<Rightarrow> bool" where
  "unsupported_shape (JDict m) = False"
| "unsupported_shape (JList items) = (\<not> list_all is_dict items)"
| "unsupported_shape _ = True"

text \<open>
  Texts used in the examples, and a decoder that agrees with \<open>json.loads\<close> on them, on
  the texts of the examples that are not JSON, such as \<open>abc\<close>, and on integers of more
  than 4300 digits, which \<open>json.loads\<close> refuses with a \<open>ValueError\<close>.
\<close>

definition object_text :: string where
  \<open>object_text = ''{"a": 0, "b": 5}''\<close>

definition array_text :: string where
  \<open>array_text = ''[{"a": 0}, {"c": 3}]''\<close>

definition huge_text :: string where
  "huge_text = replicate 4301 (CHR ''1'')"

definition sample_loads :: loads where
  "sample_loads s =
     (if 4300 < length s \<and> \<not> startswith s ''0'' \<and> list_all (\<lambda>c. c \<in> set ''0123456789'') s
      then Inl ValueError
      else (case map_of
                   [(''1'', JInt 1), (''2'', JInt 2), (''5'', JInt 5),
                    (object_text, JDict [(''a'', JInt 0), (''b'', JInt 5)]),
                    (array_text, JList [JDict [(''a'', JInt 0)], JDict [(''c'', JInt 3)]])] s of
              Some v \<Rightarrow> Inr v
            | None \<Rightarrow> Inl JSONDecodeError))"

text \<open>
  The pagination convention in the spec's words: a response body carries a \<open>data\<close>
  array (empty when absent) and an integer \<open>meta.pagination.total_pages\<close> (0 when
  absent). \<open>well_formed_page\<close> says that the fields that are present have these types.
\<close>

definition field :: "json \<Rightarrow> string \<Rightarrow> json option" where
  "field j k = (case j of JDict d \<Rightarrow> map_of d k | _ \<Rightarrow> None)"

definition data_of :: "json \<Rightarrow> json list" where
  "data_of j = (case field j ''data'' of Some (JList xs) \<Rightarrow> xs | _ \<Rightarrow> [])"

definition total_pages_of :: "json \<Rightarrow> int" where
  "total_pages_of j =
     (case field j ''meta'' of
        None \<Rightarrow> 0
      | Some m \<Rightarrow>
          (case field m ''pagination'' of
             None \<Rightarrow> 0
           | Some pg \<Rightarrow> (case field pg ''total_pages'' of Some (JInt n) \<Rightarrow> n | _ \<Rightarrow> 0)))"

fun is_list :: "json \<Rightarrow> bool" where
  "is_list (JList xs) = True"
| "is_list _ = False"

fun is_int :: "json \<Rightarrow> bool" where
  "is_int (JInt n) = True"
| "is_int _ = False"

definition well_formed_page :: "json \<Rightarrow> bool" where
  "well_formed_page j =
     (is_dict j
      \<and> (case field j ''data'' of None \<Rightarrow> True | Some d \<Rightarrow> is_list d)
      \<and> (case field j ''meta'' of
            None \<Rightarrow> True
          | Some m \<Rightarrow>
              is_dict m
              \<and> (case field m ''pagination'' of
                    None \<Rightarrow> True
                  | Some pg \<Rightarrow>
                      is_dict pg
                      \<and> (case field pg ''total_pages'' of None \<Rightarrow> True | Some t \<Rightarrow> is_int t))))"

text \<open>A page that the loop accepts: status 200 with a well-formed JSON body \<open>j\<close>.\<close>

definition page_ok :: "response \<Rightarrow> json \<Rightarrow> bool" where
  "page_ok r j = (status_code r = 200 \<and> response_json r = Inr j \<and> well_formed_page j)"

text \<open>
  Query parameters the paginated loop can extend: a dict, or a false value, in whose
  place \<open>page\<close> stands alone. \<open>page_query\<close> is the query of one page, and
  \<open>page_get\<close> the request for it, written out: a GET of the same URL with the same
  headers, no body, no files, and that query.
\<close>

fun params_ok :: "json \<Rightarrow> bool" where
  "params_ok (JDict d) = True"
| "params_ok x = (\<not> truthy x)"

fun page_query :: "json \<Rightarrow> int \<Rightarrow> dict" where
  "page_query (JDict d) page = dict_setitem d ''page'' (JInt page)"
| "page_query x page = [(''page'', JInt page)]"

definition page_get :: "string \<Rightarrow> (string \<times> string option) list \<Rightarrow> json \<Rightarrow> int \<Rightarrow> request" where
  "page_get url headers params page =
     \<lparr>req_method = Text ''GET'', req_url = url, req_headers = headers, req_json = JNull,
      req_data = JNull, req_params = JDict (page_query params page), req_files = None\<rparr>"

text \<open>The GETs for \<open>n\<close> consecutive pages from page \<open>p\<close> on.\<close>

fun page_gets ::
  "string \<Rightarrow> (string \<times> string option) list \<Rightarrow> json \<Rightarrow> int \<Rightarrow> nat \<Rightarrow> request list" where
  "page_gets url headers params p 0 = []"
| "page_gets url headers params p (Suc n) =
     page_get url headers params p # page_gets url headers params (p + 1) n"

text \<open>
  The transport answers the requests \<open>qs\<close>, sent one after the other once \<open>history\<close>
  has been sent, with the responses \<open>rs\<close>.
\<close>

fun answers :: "transport \<Rightarrow> request list \<Rightarrow> request list \<Rightarrow> response list \<Rightarrow> bool" where
  "answers srv history [] [] = True"
| "answers srv history (q # qs) (r # rs) = (srv history q = Inr r \<and> answers srv (history @ [q]) qs rs)"
| "answers srv history _ _ = False"

text \<open>
  Bodies of consecutive pages from page \<open>p\<close> on that all report more pages to come: the
  page number is below the reported total.
\<close>

fun continues :: "int \<Rightarrow> json list \<Rightarrow> bool" where
  "continues p [] = True"
| "continues p (j # js) = (p < total_pages_of j \<and> continues (p + 1) js)"

text \<open>Sample responses, a transport and a file system for the examples.\<close>

definition page_body :: "json list \<Rightarrow> int \<Rightarrow> json" where
  "page_body items n_pages =
     JDict [(''data'', JList items),
            (''meta'', JDict [(''pagination'', JDict [(''total_pages'', JInt n_pages)])])]"

definition ok_response :: "json \<Rightarrow> response" where
  "ok_response j = \<lparr>status_code = 200, content = ''{...}'', response_json = Inr j\<rparr>"

definition error_response :: response where
  "error_response =
     \<lparr>status_code = 500, content = ''{...}'',
      response_json = Inr (JDict [(''title'', JStr ''Internal Server Error'')])\<rparr>"

definition empty_response :: response where
  "empty_response = \<lparr>status_code = 204, content = [], response_json = Inl JSONDecodeError\<rparr>"

text \<open>Three pages of one item each, every one reporting three pages in total.\<close>

definition three_pages :: transport where
  "three_pages history rq =
     (if length history = 0 then Inr (ok_response (page_body [JInt 10] 3))
      else if length history = 1 then Inr (ok_response (page_body [JInt 20] 3))
      else if length history = 2 then Inr (ok_response (page_body [JInt 30] 3))
      else Inl TransportError)"

text \<open>The same, with the second page failing.\<close>

definition second_page_fails :: transport where
  "second_page_fails history rq =
     (if length history = 0 then Inr (ok_response (page_body [JInt 10] 3))
      else if length history = 1 then Inr error_response
      else Inl TransportError)"

definition always_ok :: transport where
  "always_ok history rq = Inr (ok_response (JDict []))"

definition always_empty :: transport where
  "always_empty history rq = Inr empty_response"

definition sample_fs :: filesystem where
  "sample_fs n = (if n = Path ''img.png'' then Inr ''PNG'' else Inl OSError)"

definition world0 :: world where
  "world0 = \<lparr>sent = [], open_files = []\<rparr>"

definition always_fails :: transport where
  "always_fails history rq = Inr error_response"

definition no_network :: transport where
  "no_network history rq = Inl TransportError"

text \<open>A payload with an upload field and one more field.\<close>

definition upload_payload :: json where
  "upload_payload = JDict [(''image_file'', JStr ''img.png''), (''name'', JStr ''x'')]"

definition missing_payload :: json where
  "missing_payload = JDict [(''image_file'', JStr ''missing.png''), (''name'', JStr ''x'')]"

definition upload_files :: "(action_value option \<times> file_object) list option" where
  "upload_files = Some [(Some (Text ''image_file''), BufferedReader (Path ''img.png'') ''PNG'')]"

text \<open>
  The command \<open>product images add\<close> as \<open>build_commands\<close> registers it, and
  \<open>str.format\<close> on its endpoint template.
\<close>

definition images_add :: command where
  "images_add =
     \<lparr>cmd_path = [''product'', ''images''], cmd_name = Text ''add'',
      endpoint_format = ''v3/catalog/products/{product_id}/images'',
      cmd_action = [(''action'', Text ''add''), (''method'', Text ''POST''),
                    (''multipartParamter'', Text ''image_file'')]\<rparr>"

definition images_format :: "string \<Rightarrow> (string \<times> string) list \<Rightarrow> exn + string" where
  "images_format template kwargs =
     (if template = ''v3/catalog/products/{product_id}/images''
      then (case map_of kwargs ''product_id'' of
              None \<Rightarrow> Inl KeyError
            | Some v \<Rightarrow> Inr (''v3/catalog/products/'' @ v @ ''/images''))
      else Inl KeyError)"

section \<open>Properties of the argument merger\<close>

lemma map_of_dict_setitem: "map_of (dict_setitem d k v) = (map_of d)(k \<mapsto> v)"
  by (induction d) auto

lemma keys_dict_setitem: "fst ` set (dict_setitem d k v) = insert k (fst ` set d)"
proof -
  have "dom (map_of (dict_setitem d k v)) = insert k (dom (map_of d))"
    by (simp add: map_of_dict_setitem)
  then show ?thesis by (simp only: dom_map_of_conv_image_fst)
qed

lemma distinct_dict_setitem:
  "distinct (map fst d) \<Longrightarrow> distinct (map fst (dict_setitem d k v))"
proof (induction d)
  case Nil
  then show ?case by simp
next
  case (Cons p d)
  have "fst ` set (dict_setitem d k v) = insert k (fst ` set d)"
    by (rule keys_dict_setitem)
  with Cons show ?case by (cases p) auto
qed

lemma dict_setitem_fresh: "k \<notin> fst ` set d \<Longrightarrow> dict_setitem d k v = d @ [(k, v)]"
  by (induction d) auto

lemma map_of_dict_update:
  "distinct (map fst other) \<Longrightarrow> map_of (dict_update d other) = map_of d ++ map_of other"
proof (induction other arbitrary: d)
  case Nil
  then show ?case by simp
next
  case (Cons p other)
  obtain k v where p: "p = (k, v)" by (cases p)
  from Cons.prems p have k: "map_of other k = None" and dist: "distinct (map fst other)"
    by (auto simp: map_of_eq_None_iff)
  have step: "map_of (dict_update (dict_setitem d k v) other) = (map_of d)(k \<mapsto> v) ++ map_of other"
    using Cons.IH [OF dist, of "dict_setitem d k v"] by (simp only: map_of_dict_setitem)
  show ?case
  proof (rule ext)
    fix x
    show "map_of (dict_update d (p # other)) x = (map_of d ++ map_of (p # other)) x"
      using step k p by (cases "x = k") (simp_all add: map_add_def split: option.splits)
  qed
qed

lemma dict_update_disjoint:
  "distinct (map fst other) \<Longrightarrow> fst ` set d \<inter> fst ` set other = {} \<Longrightarrow>
   dict_update d other = d @ other"
proof (induction other arbitrary: d)
  case Nil
  then show ?case by simp
next
  case (Cons p other)
  obtain k v where p: "p = (k, v)" by (cases p)
  from Cons.prems p have fresh: "k \<notin> fst ` set d" by auto
  from Cons.prems p have "fst ` set (d @ [(k, v)]) \<inter> fst ` set other = {}" by auto
  with Cons.IH [of "d @ [(k, v)]"] Cons.prems
  have "dict_update (d @ [(k, v)]) other = (d @ [(k, v)]) @ other" by simp
  with fresh p show ?case by (simp add: dict_setitem_fresh)
qed

lemma parse_pairs_distinct:
  "parse_pairs loads E acc s = Inr (A, s') \<Longrightarrow> distinct (map fst acc) \<Longrightarrow> distinct (map fst A)"
proof (induction loads E acc s rule: parse_pairs.induct)
  case (1 loads additional_data stdin)
  then show ?case by simp
next
  case (2 loads flag additional_data stdin)
  then show ?case by (simp split: if_splits)
next
  case (3 loads flag val rest additional_data stdin)
  then show ?case
    by (auto split: if_splits sum.splits prod.splits simp: distinct_dict_setitem)
qed

lemma parse_additional_data_distinct:
  "parse_additional_data loads E s = Inr (A, s') \<Longrightarrow> distinct (map fst A)"
  unfolding parse_additional_data_def by (drule parse_pairs_distinct) simp_all

lemma parse_pairs_append:
  "even (length E1) \<Longrightarrow>
   parse_pairs loads (E1 @ E2) acc s =
     (case parse_pairs loads E1 acc s of
        Inl e \<Rightarrow> Inl e
      | Inr (a, s') \<Rightarrow> parse_pairs loads E2 a s')"
proof (induction loads E1 acc s rule: parse_pairs.induct)
  case (1 loads additional_data stdin)
  then show ?case by simp
next
  case (2 loads flag additional_data stdin)
  then show ?case by simp
next
  case (3 loads flag val rest additional_data stdin)
  then show ?case by (simp split: sum.splits prod.splits)
qed

lemma parse_pairs_keeps:
  "parse_pairs loads E acc s = Inr (A, s') \<Longrightarrow> k \<notin> set (flag_keys E) \<Longrightarrow>
   map_of A k = map_of acc k"
proof (induction loads E acc s rule: parse_pairs.induct)
  case (1 loads additional_data stdin)
  then show ?case by simp
next
  case (2 loads flag additional_data stdin)
  then show ?case by (simp split: if_splits)
next
  case (3 loads flag val rest additional_data stdin)
  then show ?case
    by (auto split: if_splits sum.splits prod.splits simp: map_of_dict_setitem)
qed

lemma parse_pairs_last_wins:
  assumes run: "parse_pairs loads (E1 @ flag # val # E2) acc s = Inr (A, s2)"
      and ev: "even (length E1)"
      and fl: "startswith flag ''--''"
      and later: "flag_key flag \<notin> set (flag_keys E2)"
  shows "\<exists>A1 s1 v s1'. parse_pairs loads E1 acc s = Inr (A1, s1)
           \<and> parse_input_data loads val s1 = Inr (v, s1')
           \<and> map_of A (flag_key flag) = Some v"
proof (cases "parse_pairs loads E1 acc s")
  case (Inl e)
  with run ev show ?thesis by (simp add: parse_pairs_append)
next
  case (Inr r)
  obtain A1 s1 where r: "r = (A1, s1)" by (cases r)
  show ?thesis
  proof (cases "parse_input_data loads val s1")
    case pv: (Inl e)
    with run ev Inr r fl show ?thesis by (simp add: parse_pairs_append)
  next
    case pv: (Inr q)
    obtain v s1' where q: "q = (v, s1')" by (cases q)
    from run ev Inr r fl pv q
    have rest: "parse_pairs loads E2 (dict_setitem A1 (flag_key flag) v) s1' = Inr (A, s2)"
      by (simp add: parse_pairs_append)
    from parse_pairs_keeps [OF rest later]
    have "map_of A (flag_key flag) = Some v" by (simp add: map_of_dict_setitem)
    with Inr r pv q show ?thesis by simp
  qed
qed

lemma parse_pairs_dangling:
  assumes "odd (length E)" and "startswith (last E) ''--''"
  shows "parse_pairs loads E acc s
           = (case parse_pairs loads (butlast E) acc s of
                Inl e \<Rightarrow> Inl e
              | Inr r \<Rightarrow> Inl IndexError)"
proof -
  from assms(1) have ne: "E \<noteq> []" by auto
  then have split: "E = butlast E @ [last E]" by simp
  from assms(1) ne have ev: "even (length (butlast E))" by simp
  have "parse_pairs loads (butlast E @ [last E]) acc s
          = (case parse_pairs loads (butlast E) acc s of
               Inl e \<Rightarrow> Inl e
             | Inr (a, s') \<Rightarrow> parse_pairs loads [last E] a s')"
    using ev by (rule parse_pairs_append)
  also have "\<dots> = (case parse_pairs loads (butlast E) acc s of
                      Inl e \<Rightarrow> Inl e
                    | Inr r \<Rightarrow> Inl IndexError)"
    using assms(2) by (simp split: sum.splits prod.splits)
  finally show ?thesis using split by simp
qed

text \<open>
  An exception of \<open>json.loads\<close> that is not a \<open>JSONDecodeError\<close> escapes the token
  reader: the value of a flag then ends the parse with that exception.
\<close>

lemma parse_additional_data_escapes:
  assumes "loads val = Inl e" and "e \<noteq> JSONDecodeError" and "val \<noteq> ''-''"
      and "startswith flag ''--''"
  shows "parse_additional_data loads [flag, val] stdin = Inl e"
  using assms
  by (simp add: parse_additional_data_def parse_input_data_def loads_or_text_def)

lemma update_items_dicts:
  "update_items (map JDict items) A = Inr (map (\<lambda>item. JDict (dict_update item A)) items)"
  by (induction items) simp_all

lemma update_items_not_dicts:
  "\<not> list_all is_dict items \<Longrightarrow> update_items items A = Inl AttributeError"
proof (induction items A rule: update_items.induct)
  case (1 additional_data)
  then show ?case by simp
next
  case (2 item rest additional_data)
  then show ?case by simp
qed simp_all

text \<open>
  C1. When the primary input resolves to a JSON object \<open>P\<close> and the extra tokens parse
  to the mapping \<open>A\<close>, the merged payload is \<open>P\<close> updated with \<open>A\<close>: as a mapping it
  is \<open>P\<close> overridden by \<open>A\<close>, so the values of the extra tokens win on shared keys; with
  disjoint keys it is \<open>P\<close> followed by \<open>A\<close>, their union; and a key of the extra tokens
  holds the value of its last flag/value pair, whatever earlier pairs gave it.
\<close>

theorem merge_object_payload:
  assumes prim: "primary_data loads data stdin = Inr (JDict P, stdin1)"
      and extra: "parse_additional_data loads E stdin1 = Inr (A, stdin2)"
  shows "construct_request_data loads data E stdin = Inr (JDict (dict_update P A), stdin2)
       \<and> map_of (dict_update P A) = map_of P ++ map_of A
       \<and> (fst ` set P \<inter> fst ` set A = {} \<longrightarrow> dict_update P A = P @ A)
       \<and> (\<forall>E1 flag val E2.
            E = E1 @ flag # val # E2 \<and> even (length E1) \<and> startswith flag ''--''
              \<and> flag_key flag \<notin> set (flag_keys E2)
            \<longrightarrow> (\<exists>A1 s1 v s1'. parse_additional_data loads E1 stdin1 = Inr (A1, s1)
                   \<and> parse_input_data loads val s1 = Inr (v, s1')
                   \<and> map_of A (flag_key flag) = Some v))"
proof -
  have dist: "distinct (map fst A)"
    using extra by (rule parse_additional_data_distinct)
  have result: "construct_request_data loads data E stdin = Inr (JDict (dict_update P A), stdin2)"
    using prim extra by (simp add: construct_request_data_def)
  have as_map: "map_of (dict_update P A) = map_of P ++ map_of A"
    using dist by (rule map_of_dict_update)
  have union: "fst ` set P \<inter> fst ` set A = {} \<longrightarrow> dict_update P A = P @ A"
    using dist by (simp add: dict_update_disjoint)
  have last_wins: "\<forall>E1 flag val E2.
            E = E1 @ flag # val # E2 \<and> even (length E1) \<and> startswith flag ''--''
              \<and> flag_key flag \<notin> set (flag_keys E2)
            \<longrightarrow> (\<exists>A1 s1 v s1'. parse_additional_data loads E1 stdin1 = Inr (A1, s1)
                   \<and> parse_input_data loads val s1 = Inr (v, s1')
                   \<and> map_of A (flag_key flag) = Some v)"
    using extra unfolding parse_additional_data_def
    by (auto dest: parse_pairs_last_wins)
  from result as_map union last_wins show ?thesis by blast
qed

theorem merge_object_payload_witness:
  "primary_data sample_loads (Some object_text) [] = Inr (JDict [(''a'', JInt 0), (''b'', JInt 5)], [])
   \<and> parse_additional_data sample_loads [''--a'', ''1'', ''--c'', ''5'', ''--a'', ''2''] []
       = Inr ([(''a'', JInt 2), (''c'', JInt 5)], [])
   \<and> construct_request_data sample_loads (Some object_text)
         [''--a'', ''1'', ''--c'', ''5'', ''--a'', ''2''] []
       = Inr (JDict [(''a'', JInt 2), (''b'', JInt 5), (''c'', JInt 5)], [])
   \<and> parse_additional_data sample_loads [''--c'', ''5''] [] = Inr ([(''c'', JInt 5)], [])
   \<and> construct_request_data sample_loads (Some object_text) [''--c'', ''5''] []
       = Inr (JDict ([(''a'', JInt 0), (''b'', JInt 5)] @ [(''c'', JInt 5)]), [])"
proof -
  have prim: "primary_data sample_loads (Some object_text) []
                = Inr (JDict [(''a'', JInt 0), (''b'', JInt 5)], [])"
    by (simp add: primary_data_def parse_input_data_def loads_or_text_def sample_loads_def
        object_text_def array_text_def)
  have extra1: "parse_additional_data sample_loads [''--a'', ''1'', ''--c'', ''5'', ''--a'', ''2''] []
                  = Inr ([(''a'', JInt 2), (''c'', JInt 5)], [])"
    by (simp add: parse_additional_data_def parse_input_data_def loads_or_text_def
        sample_loads_def object_text_def array_text_def flag_key_def lstrip_dashes_def
        replace_dash_def)
  have extra2: "parse_additional_data sample_loads [''--c'', ''5''] [] = Inr ([(''c'', JInt 5)], [])"
    by (simp add: parse_additional_data_def parse_input_data_def loads_or_text_def
        sample_loads_def object_text_def array_text_def flag_key_def lstrip_dashes_def
        replace_dash_def)
  have overlap: "construct_request_data sample_loads (Some object_text)
         [''--a'', ''1'', ''--c'', ''5'', ''--a'', ''2''] []
       = Inr (JDict [(''a'', JInt 2), (''b'', JInt 5), (''c'', JInt 5)], [])"
    using merge_object_payload [OF prim extra1] by simp
  have disjoint: "construct_request_data sample_loads (Some object_text) [''--c'', ''5''] []
       = Inr (JDict ([(''a'', JInt 0), (''b'', JInt 5)] @ [(''c'', JInt 5)]), [])"
    using merge_object_payload [OF prim extra2] by simp
  from prim extra1 extra2 overlap disjoint show ?thesis by blast
qed

text \<open>
  C4. When the primary input resolves to a list of JSON objects and the extra tokens
  parse to the mapping \<open>A\<close>, the merged payload is the list in which every element has
  been updated with the same \<open>A\<close>; in each element the values of \<open>A\<close> win on shared keys.
\<close>

theorem merge_array_payload:
  assumes prim: "primary_data loads data stdin = Inr (JList (map JDict items), stdin1)"
      and extra: "parse_additional_data loads E stdin1 = Inr (A, stdin2)"
  shows "construct_request_data loads data E stdin
           = Inr (JList (map (\<lambda>item. JDict (dict_update item A)) items), stdin2)
       \<and> (\<forall>item \<in> set items. map_of (dict_update item A) = map_of item ++ map_of A)"
proof -
  have dist: "distinct (map fst A)"
    using extra by (rule parse_additional_data_distinct)
  have "construct_request_data loads data E stdin
           = Inr (JList (map (\<lambda>item. JDict (dict_update item A)) items), stdin2)"
    using prim extra by (simp add: construct_request_data_def update_items_dicts)
  moreover have "\<forall>item \<in> set items. map_of (dict_update item A) = map_of item ++ map_of A"
    using dist by (simp add: map_of_dict_update)
  ultimately show ?thesis by blast
qed

theorem merge_array_payload_witness:
  "primary_data sample_loads (Some array_text) []
     = Inr (JList (map JDict [[(''a'', JInt 0)], [(''c'', JInt 3)]]), [])
   \<and> parse_additional_data sample_loads [''--a'', ''1''] [] = Inr ([(''a'', JInt 1)], [])
   \<and> construct_request_data sample_loads (Some array_text) [''--a'', ''1''] []
       = Inr (JList [JDict [(''a'', JInt 1)], JDict [(''c'', JInt 3), (''a'', JInt 1)]], [])"
proof -
  have prim: "primary_data sample_loads (Some array_text) []
     = Inr (JList (map JDict [[(''a'', JInt 0)], [(''c'', JInt 3)]]), [])"
    by (simp add: primary_data_def parse_input_data_def loads_or_text_def sample_loads_def
        object_text_def array_text_def)
  have extra: "parse_additional_data sample_loads [''--a'', ''1''] [] = Inr ([(''a'', JInt 1)], [])"
    by (simp add: parse_additional_data_def parse_input_data_def loads_or_text_def
        sample_loads_def object_text_def array_text_def flag_key_def lstrip_dashes_def
        replace_dash_def)
  have "construct_request_data sample_loads (Some array_text) [''--a'', ''1''] []
       = Inr (JList [JDict [(''a'', JInt 1)], JDict [(''c'', JInt 3), (''a'', JInt 1)]], [])"
    using merge_array_payload [OF prim extra] by simp
  with prim extra show ?thesis by blast
qed

text \<open>
  C6, as the spec words it: a primary value that is neither a mapping nor a sequence of
  mappings makes the merge fail with a reported "unsupported payload shape" condition
  instead of crashing. The program has no such report. For the primary text \<open>5\<close> the
  merge ends in an uncaught \<open>AttributeError\<close>, raised by \<open>data.update\<close> on an \<open>int\<close>.
\<close>

theorem merge_scalar_counterexample:
  "primary_data sample_loads (Some ''5'') [] = Inr (JInt 5, [])
   \<and> unsupported_shape (JInt 5)
   \<and> construct_request_data sample_loads (Some ''5'') [] [] = Inl AttributeError"
  by (simp add: construct_request_data_def primary_data_def parse_input_data_def
      loads_or_text_def parse_additional_data_def sample_loads_def object_text_def
      array_text_def)

text \<open>
  C6, amended: for a primary value that is neither a dict nor a list of dicts the merge
  never returns a payload. It ends in an uncaught exception: the one that the token
  reader raised, when it raised one (the \<open>IndexError\<close> of a dangling flag, or what
  escaped \<open>json.loads\<close> on a value), else the \<open>AttributeError\<close> of the missing \<open>update\<close>
  method.
\<close>

theorem merge_unsupported_shape_raises:
  assumes prim: "primary_data loads data stdin = Inr (d, stdin1)"
      and shape: "unsupported_shape d"
  shows "construct_request_data loads data E stdin
           = (case parse_additional_data loads E stdin1 of
                Inl e \<Rightarrow> Inl e
              | Inr r \<Rightarrow> Inl AttributeError)
       \<and> isl (construct_request_data loads data E stdin)"
proof -
  have eq: "construct_request_data loads data E stdin
           = (case parse_additional_data loads E stdin1 of
                Inl e \<Rightarrow> Inl e
              | Inr r \<Rightarrow> Inl AttributeError)"
  proof (cases "parse_additional_data loads E stdin1")
    case (Inl e)
    with prim show ?thesis by (simp add: construct_request_data_def)
  next
    case (Inr r)
    obtain A s where r: "r = (A, s)" by (cases r)
    show ?thesis
    proof (cases d)
      case (JList items)
      with shape have "update_items items A = Inl AttributeError"
        by (simp add: update_items_not_dicts)
      with JList Inr r prim show ?thesis by (simp add: construct_request_data_def)
    next
      case (JDict m)
      with shape show ?thesis by simp
    qed (use Inr r prim in \<open>simp_all add: construct_request_data_def\<close>)
  qed
  then have "isl (construct_request_data loads data E stdin)"
    by (simp split: sum.splits)
  with eq show ?thesis by (rule conjI)
qed

theorem merge_unsupported_shape_raises_witness:
  "primary_data sample_loads (Some ''abc'') [] = Inr (JStr ''abc'', [])
   \<and> unsupported_shape (JStr ''abc'')
   \<and> construct_request_data sample_loads (Some ''abc'') [''--a'', ''1''] [] = Inl AttributeError
   \<and> construct_request_data sample_loads (Some ''abc'') [''--a''] [] = Inl IndexError
   \<and> construct_request_data sample_loads (Some ''abc'') [''--a'', huge_text] [] = Inl ValueError"
proof -
  have prim: "primary_data sample_loads (Some ''abc'') [] = Inr (JStr ''abc'', [])"
    by (simp add: primary_data_def parse_input_data_def loads_or_text_def sample_loads_def
        object_text_def array_text_def)
  have shape: "unsupported_shape (JStr ''abc'')" by simp
  have extra1: "parse_additional_data sample_loads [''--a'', ''1''] [] = Inr ([(''a'', JInt 1)], [])"
    by (simp add: parse_additional_data_def parse_input_data_def loads_or_text_def
        sample_loads_def object_text_def array_text_def flag_key_def lstrip_dashes_def
        replace_dash_def)
  have extra2: "parse_additional_data sample_loads [''--a''] [] = Inl IndexError"
    by (simp add: parse_additional_data_def)
  have len: "length huge_text = 4301" by (simp add: huge_text_def)
  have not_dash: "huge_text \<noteq> ''-''"
  proof
    assume "huge_text = ''-''"
    then have "length huge_text = length ''-''" by (rule arg_cong)
    with len show False by simp
  qed
  have digits: "list_all (\<lambda>c. c \<in> set ''0123456789'') huge_text"
    by (simp add: huge_text_def list_all_iff)
  have "huge_text = replicate (Suc 4300) (CHR ''1'')" by (simp add: huge_text_def)
  then have "huge_text = CHR ''1'' # replicate 4300 (CHR ''1'')" by (simp only: replicate_Suc)
  then obtain digits_left where cons: "huge_text = CHR ''1'' # digits_left" by blast
  have first: "\<not> startswith huge_text ''0''" by (simp add: cons)
  have "sample_loads huge_text = Inl ValueError"
    unfolding sample_loads_def using len first digits by simp
  then have extra3: "parse_additional_data sample_loads [''--a'', huge_text] [] = Inl ValueError"
    using not_dash by (intro parse_additional_data_escapes) simp_all
  have r1: "construct_request_data sample_loads (Some ''abc'') [''--a'', ''1''] [] = Inl AttributeError"
    using merge_unsupported_shape_raises [OF prim shape, of "[''--a'', ''1'']"] extra1 by simp
  have r2: "construct_request_data sample_loads (Some ''abc'') [''--a''] [] = Inl IndexError"
    using merge_unsupported_shape_raises [OF prim shape, of "[''--a'']"] extra2 by simp
  have r3: "construct_request_data sample_loads (Some ''abc'') [''--a'', huge_text] [] = Inl ValueError"
    using merge_unsupported_shape_raises [OF prim shape, of "[''--a'', huge_text]"] extra3 by simp
  from prim shape r1 r2 r3 show ?thesis by blast
qed

text \<open>
  C10. A token list of odd length whose last token starts with \<open>--\<close> makes the pairwise
  reader look for a value one past the end. Such a list never parses to a mapping, and
  when the pairs before the last token parse, \<open>parse_additional_data\<close> ends in
  \<open>IndexError\<close>. The list with the single token \<open>--a\<close> is one such list.
\<close>

theorem dangling_flag_index_error:
  assumes "odd (length E)" and "startswith (last E) ''--''"
  shows "isl (parse_additional_data loads E stdin)
       \<and> (\<forall>A s. parse_additional_data loads (butlast E) stdin = Inr (A, s)
                 \<longrightarrow> parse_additional_data loads E stdin = Inl IndexError)"
  using parse_pairs_dangling [OF assms, of loads "[]" stdin]
  unfolding parse_additional_data_def by (auto split: sum.splits)

theorem dangling_flag_index_error_witness:
  "odd (length [''--a'']) \<and> startswith (last [''--a'']) ''--''
   \<and> parse_additional_data sample_loads (butlast [''--a'']) [] = Inr ([], [])
   \<and> parse_additional_data sample_loads [''--a''] [] = Inl IndexError"
proof -
  have len: "odd (length [''--a''])" by simp
  have flag: "startswith (last [''--a'']) ''--''" by simp
  have before: "parse_additional_data sample_loads (butlast [''--a'']) [] = Inr ([], [])"
    by (simp add: parse_additional_data_def)
  from dangling_flag_index_error [OF len flag, of sample_loads "[]"] before
  have "parse_additional_data sample_loads [''--a''] [] = Inl IndexError" by blast
  with len flag before show ?thesis by blast
qed

section \<open>Properties of the paginated loop\<close>

lemma paginated_params_ok:
  "params_ok params \<Longrightarrow> paginated_params params page = Inr (page_query params page)"
  by (cases params) (auto simp: paginated_params_def)

text \<open>
  Outside \<open>params_ok\<close> the loop sends nothing: parameters that are true and not a
  dict, such as a payload that is a non-empty list, cannot be unpacked into the query.
\<close>

lemma paginated_params_not_ok:
  "\<not> params_ok params \<Longrightarrow>
   make_paginated_request srv url headers params w = Some (Inl TypeError, w)"
  unfolding make_paginated_request_def
  by (subst make_paginated_request_loop.simps) (cases params; simp add: paginated_params_def)

lemma page_query_page: "map_of (page_query params page) ''page'' = Some (JInt page)"
  by (cases params) (simp_all add: map_of_dict_setitem)

lemma page_query_other:
  "key \<noteq> ''page'' \<Longrightarrow> map_of (page_query params page) key = field params key"
  by (cases params) (simp_all add: map_of_dict_setitem field_def)

lemma page_step_well_formed:
  assumes "well_formed_page j"
  shows "page_step j results p = Inr (results @ data_of j, total_pages_of j \<le> p)"
proof -
  from assms obtain d where j: "j = JDict d"
    by (cases j) (simp_all add: well_formed_page_def)
  have data: "case map_of d ''data'' of None \<Rightarrow> True | Some x \<Rightarrow> is_list x"
    using assms j by (simp add: well_formed_page_def field_def)
  have ext: "list_extend results (dict_get d ''data'' (JList [])) = Inr (results @ data_of j)"
  proof (cases "map_of d ''data''")
    case None
    then show ?thesis by (simp add: dict_get_def list_extend_def data_of_def field_def j)
  next
    case (Some x)
    with data obtain xs where "x = JList xs" by (cases x) simp_all
    with Some show ?thesis by (simp add: dict_get_def list_extend_def data_of_def field_def j)
  qed
  have meta: "case map_of d ''meta'' of
                None \<Rightarrow> True
              | Some m \<Rightarrow>
                  is_dict m
                  \<and> (case field m ''pagination'' of
                        None \<Rightarrow> True
                      | Some pg \<Rightarrow>
                          is_dict pg
                          \<and> (case field pg ''total_pages'' of None \<Rightarrow> True | Some t \<Rightarrow> is_int t))"
    using assms j by (simp add: well_formed_page_def field_def)
  have tot: "total_pages j = Inr (JInt (total_pages_of j))"
  proof (cases "map_of d ''meta''")
    case None
    then show ?thesis by (simp add: total_pages_def total_pages_of_def dict_get_def field_def j)
  next
    case (Some m)
    with meta obtain md where m: "m = JDict md" by (cases m) simp_all
    from meta Some m
    have pag: "case map_of md ''pagination'' of
                 None \<Rightarrow> True
               | Some pg \<Rightarrow>
                   is_dict pg
                   \<and> (case field pg ''total_pages'' of None \<Rightarrow> True | Some t \<Rightarrow> is_int t)"
      by (simp add: field_def)
    show ?thesis
    proof (cases "map_of md ''pagination''")
      case None
      with Some m show ?thesis
        by (simp add: total_pages_def total_pages_of_def dict_get_def field_def j)
    next
      case pg: (Some pg)
      with pag obtain pd where pd: "pg = JDict pd" by (cases pg) simp_all
      from pag pg pd
      have t: "case map_of pd ''total_pages'' of None \<Rightarrow> True | Some t \<Rightarrow> is_int t"
        by (simp add: field_def)
      show ?thesis
      proof (cases "map_of pd ''total_pages''")
        case None
        with Some m pg pd show ?thesis
          by (simp add: total_pages_def total_pages_of_def dict_get_def field_def j)
      next
        case tp: (Some t')
        with t obtain n where "t' = JInt n" by (cases t') simp_all
        with Some m pg pd tp show ?thesis
          by (simp add: total_pages_def total_pages_of_def dict_get_def field_def j)
      qed
    qed
  qed
  show ?thesis
    using ext tot by (simp add: page_step_def j)
qed

lemma loop_continue:
  assumes "params_ok params"
      and "srv (sent w) (page_get url headers params p) = Inr r"
      and "page_ok r j"
      and "p < total_pages_of j"
  shows "make_paginated_request_loop srv url headers params results p w
           = make_paginated_request_loop srv url headers params (results @ data_of j) (p + 1)
               (w\<lparr>sent := sent w @ [page_get url headers params p]\<rparr>)"
  using assms
  by (subst make_paginated_request_loop.simps)
     (simp add: paginated_params_ok requests_request_def page_get_def page_request_def
        page_ok_def page_step_well_formed)

lemma loop_stop:
  assumes "params_ok params"
      and "srv (sent w) (page_get url headers params p) = Inr r"
      and "page_ok r j"
      and "total_pages_of j \<le> p"
  shows "make_paginated_request_loop srv url headers params results p w
           = Some (Inr (JDict [(''data'', JList (results @ data_of j))]),
                   w\<lparr>sent := sent w @ [page_get url headers params p]\<rparr>)"
  using assms
  by (subst make_paginated_request_loop.simps)
     (simp add: paginated_params_ok requests_request_def page_get_def page_request_def
        page_ok_def page_step_well_formed)

lemma loop_not_200:
  assumes "params_ok params"
      and "srv (sent w) (page_get url headers params p) = Inr r"
      and "status_code r \<noteq> 200"
  shows "make_paginated_request_loop srv url headers params results p w
           = Some (response_json r, w\<lparr>sent := sent w @ [page_get url headers params p]\<rparr>)"
  using assms
  by (subst make_paginated_request_loop.simps)
     (simp add: paginated_params_ok requests_request_def page_get_def page_request_def)

lemma loop_prefix:
  assumes "params_ok params"
  shows "answers srv (sent w) (page_gets url headers params p (length js) @ qs) (rs @ rs') \<Longrightarrow>
         list_all2 page_ok rs js \<Longrightarrow> continues p js \<Longrightarrow>
         make_paginated_request_loop srv url headers params results p w
           = make_paginated_request_loop srv url headers params
               (results @ concat (map data_of js)) (p + int (length js))
               (w\<lparr>sent := sent w @ page_gets url headers params p (length js)\<rparr>)
         \<and> answers srv (sent w @ page_gets url headers params p (length js)) qs rs'"
proof (induction js arbitrary: rs p results w)
  case Nil
  then show ?case by simp
next
  case (Cons j js)
  from Cons.prems(2) obtain r rs0 where rs: "rs = r # rs0" and r: "page_ok r j"
    and rest: "list_all2 page_ok rs0 js"
    by (cases rs) auto
  from Cons.prems(1) rs
  have ans: "srv (sent w) (page_get url headers params p) = Inr r"
    and ans': "answers srv (sent w @ [page_get url headers params p])
                 (page_gets url headers params (p + 1) (length js) @ qs) (rs0 @ rs')"
    by simp_all
  from Cons.prems(3) have more: "p < total_pages_of j" and cont: "continues (p + 1) js"
    by simp_all
  let ?w = "w\<lparr>sent := sent w @ [page_get url headers params p]\<rparr>"
  have step: "make_paginated_request_loop srv url headers params results p w
                = make_paginated_request_loop srv url headers params (results @ data_of j) (p + 1) ?w"
    using assms ans r more by (rule loop_continue)
  from ans' have ans'': "answers srv (sent ?w)
                 (page_gets url headers params (p + 1) (length js) @ qs) (rs0 @ rs')"
    by simp
  from Cons.IH [OF ans'' rest cont, of "results @ data_of j"] step
  show ?case by (simp add: algebra_simps)
qed

lemma page_gets_snoc:
  "page_gets url headers params p (Suc n)
     = page_gets url headers params p n @ [page_get url headers params (p + int n)]"
proof (induction n arbitrary: p)
  case 0
  show ?case by simp
next
  case (Suc n)
  have "page_gets url headers params p (Suc (Suc n))
          = page_get url headers params p # page_gets url headers params (p + 1) (Suc n)"
    by (simp only: page_gets.simps)
  also have "\<dots> = page_get url headers params p
                    # (page_gets url headers params (p + 1) n
                       @ [page_get url headers params (p + 1 + int n)])"
    by (simp only: Suc.IH)
  also have "\<dots> = page_gets url headers params p (Suc n)
                    @ [page_get url headers params (p + int (Suc n))]"
    by (simp add: algebra_simps)
  finally show ?case .
qed

lemma page_gets_nth:
  "i < n \<Longrightarrow> page_gets url headers params p n ! i = page_get url headers params (p + int i)"
proof (induction n arbitrary: p i)
  case 0
  then show ?case by simp
next
  case (Suc n)
  show ?case
  proof (cases i)
    case 0
    then show ?thesis by simp
  next
    case (Suc i')
    with Suc.prems have "i' < n" by simp
    from Suc.IH [OF this, of "p + 1"] Suc show ?thesis by (simp add: algebra_simps)
  qed
qed

lemma length_page_gets: "length (page_gets url headers params p n) = n"
  by (induction n arbitrary: p) simp_all

lemma page_gets_map:
  "page_gets url headers params p n
     = map (page_get url headers params) (map (\<lambda>i. p + int i) [0..<n])"
  by (rule nth_equalityI) (simp_all del: page_gets.simps add: length_page_gets page_gets_nth)

text \<open>
  C2. A paginated GET starts at page 1 and asks for the pages one after the other: the
  requests sent are, in order, the GETs of the same URL with the same headers whose query
  is the parameters with \<open>page\<close> set to 1, 2, and so on. While the pages come back with
  status 200 and report a total above their page number, their \<open>data\<close> arrays (empty
  when absent) are collected; the first page whose total (0 when absent) is not above its
  page number ends the loop, and the result is the one object whose \<open>data\<close> is
  everything collected, in request order. No request follows the last page.
\<close>

theorem paginated_collects_pages:
  assumes ok: "params_ok params"
      and ans: "answers srv (sent w) (page_gets url headers params 1 (Suc (length js))) (rs @ [r])"
      and pages: "list_all2 page_ok rs js"
      and cont: "continues 1 js"
      and last: "page_ok r j"
      and stop: "total_pages_of j \<le> 1 + int (length js)"
  shows "make_paginated_request srv url headers params w
           = Some (Inr (JDict [(''data'', JList (concat (map data_of (js @ [j]))))]),
                   w\<lparr>sent := sent w
                      @ map (\<lambda>page. \<lparr>req_method = Text ''GET'', req_url = url,
                                      req_headers = headers, req_json = JNull, req_data = JNull,
                                      req_params = JDict (page_query params page),
                                      req_files = None\<rparr>)
                            (map (\<lambda>i. 1 + int i) [0..<Suc (length js)])\<rparr>)
       \<and> (\<forall>page. map_of (page_query params page) ''page'' = Some (JInt page)
                 \<and> (\<forall>key. key \<noteq> ''page''
                        \<longrightarrow> map_of (page_query params page) key = field params key))"
proof -
  let ?n = "length js"
  let ?w = "w\<lparr>sent := sent w @ page_gets url headers params 1 ?n\<rparr>"
  from ans have ans': "answers srv (sent w)
      (page_gets url headers params 1 ?n @ [page_get url headers params (1 + int ?n)]) (rs @ [r])"
    by (simp only: page_gets_snoc)
  from loop_prefix [OF ok ans' pages cont, of "[]"]
  have run: "make_paginated_request_loop srv url headers params [] 1 w
               = make_paginated_request_loop srv url headers params
                   (concat (map data_of js)) (1 + int ?n) ?w"
    and final: "srv (sent ?w) (page_get url headers params (1 + int ?n)) = Inr r"
    by simp_all
  have "make_paginated_request_loop srv url headers params (concat (map data_of js)) (1 + int ?n) ?w
          = Some (Inr (JDict [(''data'', JList (concat (map data_of js) @ data_of j))]),
                  ?w\<lparr>sent := sent ?w @ [page_get url headers params (1 + int ?n)]\<rparr>)"
    using ok final last stop by (rule loop_stop)
  with run
  have "make_paginated_request srv url headers params w
           = Some (Inr (JDict [(''data'', JList (concat (map data_of (js @ [j]))))]),
                   w\<lparr>sent := sent w @ page_gets url headers params 1 (Suc ?n)\<rparr>)"
    by (simp del: page_gets.simps add: make_paginated_request_def page_gets_snoc)
  also have "page_gets url headers params 1 (Suc ?n)
      = map (\<lambda>page. \<lparr>req_method = Text ''GET'', req_url = url,
                      req_headers = headers, req_json = JNull, req_data = JNull,
                      req_params = JDict (page_query params page),
                      req_files = None\<rparr>)
            (map (\<lambda>i. 1 + int i) [0..<Suc ?n])"
    by (simp only: page_gets_map) (simp add: page_get_def)
  finally have result: "make_paginated_request srv url headers params w
           = Some (Inr (JDict [(''data'', JList (concat (map data_of (js @ [j]))))]),
                   w\<lparr>sent := sent w
                      @ map (\<lambda>page. \<lparr>req_method = Text ''GET'', req_url = url,
                                      req_headers = headers, req_json = JNull, req_data = JNull,
                                      req_params = JDict (page_query params page),
                                      req_files = None\<rparr>)
                            (map (\<lambda>i. 1 + int i) [0..<Suc ?n])\<rparr>)" .
  have query: "\<forall>page. map_of (page_query params page) ''page'' = Some (JInt page)
                 \<and> (\<forall>key. key \<noteq> ''page''
                        \<longrightarrow> map_of (page_query params page) key = field params key)"
    by (simp add: page_query_page page_query_other)
  from result query show ?thesis by (rule conjI)
qed

theorem paginated_collects_pages_witness:
  "params_ok (JDict [(''limit'', JInt 1)])
   \<and> answers three_pages (sent world0)
        (page_gets ''u'' [] (JDict [(''limit'', JInt 1)]) 1
           (Suc (length [page_body [JInt 10] 3, page_body [JInt 20] 3])))
        ([ok_response (page_body [JInt 10] 3), ok_response (page_body [JInt 20] 3)]
         @ [ok_response (page_body [JInt 30] 3)])
   \<and> list_all2 page_ok [ok_response (page_body [JInt 10] 3), ok_response (page_body [JInt 20] 3)]
        [page_body [JInt 10] 3, page_body [JInt 20] 3]
   \<and> continues 1 [page_body [JInt 10] 3, page_body [JInt 20] 3]
   \<and> page_ok (ok_response (page_body [JInt 30] 3)) (page_body [JInt 30] 3)
   \<and> total_pages_of (page_body [JInt 30] 3) \<le> 3
   \<and> make_paginated_request three_pages ''u'' [] (JDict [(''limit'', JInt 1)]) world0
       = Some (Inr (JDict [(''data'', JList [JInt 10, JInt 20, JInt 30])]),
               \<lparr>sent = [\<lparr>req_method = Text ''GET'', req_url = ''u'', req_headers = [],
                         req_json = JNull, req_data = JNull,
                         req_params = JDict [(''limit'', JInt 1), (''page'', JInt 1)],
                         req_files = None\<rparr>,
                        \<lparr>req_method = Text ''GET'', req_url = ''u'', req_headers = [],
                         req_json = JNull, req_data = JNull,
                         req_params = JDict [(''limit'', JInt 1), (''page'', JInt 2)],
                         req_files = None\<rparr>,
                        \<lparr>req_method = Text ''GET'', req_url = ''u'', req_headers = [],
                         req_json = JNull, req_data = JNull,
                         req_params = JDict [(''limit'', JInt 1), (''page'', JInt 3)],
                         req_files = None\<rparr>],
                open_files = []\<rparr>)"
proof -
  let ?b1 = "page_body [JInt 10] 3" and ?b2 = "page_body [JInt 20] 3"
    and ?b3 = "page_body [JInt 30] 3"
  let ?params = "JDict [(''limit'', JInt 1)]"
  have total: "total_pages_of (page_body items 3) = 3" for items
    by (simp add: total_pages_of_def field_def page_body_def)
  have data: "data_of (page_body items 3) = items" for items
    by (simp add: data_of_def field_def page_body_def)
  have wf: "page_ok (ok_response (page_body items 3)) (page_body items 3)" for items
    by (simp add: page_ok_def ok_response_def well_formed_page_def field_def page_body_def)
  have ok: "params_ok ?params" by simp
  have ans: "answers three_pages (sent world0)
        (page_gets ''u'' [] ?params 1 (Suc (length [?b1, ?b2])))
        ([ok_response ?b1, ok_response ?b2] @ [ok_response ?b3])"
    by (simp add: three_pages_def world0_def)
  have pages: "list_all2 page_ok [ok_response ?b1, ok_response ?b2] [?b1, ?b2]"
    by (simp add: wf)
  have cont: "continues 1 [?b1, ?b2]" by (simp add: total)
  have stop: "total_pages_of ?b3 \<le> 1 + int (length [?b1, ?b2])" by (simp add: total)
  have "make_paginated_request three_pages ''u'' [] ?params world0
       = Some (Inr (JDict [(''data'', JList [JInt 10, JInt 20, JInt 30])]),
               \<lparr>sent = [\<lparr>req_method = Text ''GET'', req_url = ''u'', req_headers = [],
                         req_json = JNull, req_data = JNull,
                         req_params = JDict [(''limit'', JInt 1), (''page'', JInt 1)],
                         req_files = None\<rparr>,
                        \<lparr>req_method = Text ''GET'', req_url = ''u'', req_headers = [],
                         req_json = JNull, req_data = JNull,
                         req_params = JDict [(''limit'', JInt 1), (''page'', JInt 2)],
                         req_files = None\<rparr>,
                        \<lparr>req_method = Text ''GET'', req_url = ''u'', req_headers = [],
                         req_json = JNull, req_data = JNull,
                         req_params = JDict [(''limit'', JInt 1), (''page'', JInt 3)],
                         req_files = None\<rparr>],
                open_files = []\<rparr>)"
    using paginated_collects_pages [OF ok ans pages cont wf stop]
    by (simp add: data world0_def upt_rec)
  with ok ans pages cont wf [of "[JInt 30]"] total [of "[JInt 30]"] show ?thesis by simp
qed

text \<open>
  C3. When the pages before it were accepted and reported more pages, a page that comes
  back with a status other than 200 ends the loop at once: the result is what
  \<open>response.json()\<close> gives for that response, nothing of the collected data is in it,
  and the request for that page is the last one sent.
\<close>

theorem paginated_stops_on_error:
  assumes ok: "params_ok params"
      and ans: "answers srv (sent w) (page_gets url headers params 1 (Suc (length js))) (rs @ [r])"
      and pages: "list_all2 page_ok rs js"
      and cont: "continues 1 js"
      and bad: "status_code r \<noteq> 200"
  shows "make_paginated_request srv url headers params w
           = Some (response_json r,
                   w\<lparr>sent := sent w @ page_gets url headers params 1 (Suc (length js))\<rparr>)"
proof -
  let ?n = "length js"
  let ?w = "w\<lparr>sent := sent w @ page_gets url headers params 1 ?n\<rparr>"
  from ans have ans': "answers srv (sent w)
      (page_gets url headers params 1 ?n @ [page_get url headers params (1 + int ?n)]) (rs @ [r])"
    by (simp only: page_gets_snoc)
  from loop_prefix [OF ok ans' pages cont, of "[]"]
  have run: "make_paginated_request_loop srv url headers params [] 1 w
               = make_paginated_request_loop srv url headers params
                   (concat (map data_of js)) (1 + int ?n) ?w"
    and final: "srv (sent ?w) (page_get url headers params (1 + int ?n)) = Inr r"
    by simp_all
  have "make_paginated_request_loop srv url headers params (concat (map data_of js)) (1 + int ?n) ?w
          = Some (response_json r,
                  ?w\<lparr>sent := sent ?w @ [page_get url headers params (1 + int ?n)]\<rparr>)"
    using ok final bad by (rule loop_not_200)
  with run show ?thesis
    by (simp del: page_gets.simps add: make_paginated_request_def page_gets_snoc)
qed

theorem paginated_stops_on_error_witness:
  "params_ok (JDict [])
   \<and> answers second_page_fails (sent world0)
        (page_gets ''u'' [] (JDict []) 1 (Suc (length [page_body [JInt 10] 3])))
        ([ok_response (page_body [JInt 10] 3)] @ [error_response])
   \<and> list_all2 page_ok [ok_response (page_body [JInt 10] 3)] [page_body [JInt 10] 3]
   \<and> continues 1 [page_body [JInt 10] 3]
   \<and> status_code error_response \<noteq> 200
   \<and> make_paginated_request second_page_fails ''u'' [] (JDict []) world0
       = Some (Inr (JDict [(''title'', JStr ''Internal Server Error'')]),
               \<lparr>sent = [page_request ''u'' [] [(''page'', JInt 1)],
                        page_request ''u'' [] [(''page'', JInt 2)]],
                open_files = []\<rparr>)"
proof -
  let ?b1 = "page_body [JInt 10] 3"
  have ok: "params_ok (JDict [])" by simp
  have ans: "answers second_page_fails (sent world0)
        (page_gets ''u'' [] (JDict []) 1 (Suc (length [?b1]))) ([ok_response ?b1] @ [error_response])"
    by (simp add: second_page_fails_def world0_def)
  have pages: "list_all2 page_ok [ok_response ?b1] [?b1]"
    by (simp add: page_ok_def ok_response_def well_formed_page_def field_def page_body_def)
  have cont: "continues 1 [?b1]"
    by (simp add: total_pages_of_def field_def page_body_def)
  have bad: "status_code error_response \<noteq> 200" by (simp add: error_response_def)
  have "make_paginated_request second_page_fails ''u'' [] (JDict []) world0
       = Some (Inr (JDict [(''title'', JStr ''Internal Server Error'')]),
               \<lparr>sent = [page_request ''u'' [] [(''page'', JInt 1)],
                        page_request ''u'' [] [(''page'', JInt 2)]],
                open_files = []\<rparr>)"
    using paginated_stops_on_error [OF ok ans pages cont bad]
    by (simp add: world0_def page_get_def page_request_def error_response_def)
  with ok ans pages cont bad show ?thesis by simp
qed

section \<open>Properties of a single request\<close>

lemma loop_open_files:
  assumes "make_paginated_request_loop srv url headers params results page w = Some y"
  shows "open_files (snd y) = open_files w"
  using assms
proof (induction srv url headers params results page w y
        rule: make_paginated_request_loop.raw_induct [rotated, consumes 1])
  case (1 loop srv url headers params results page w y)
  show ?case
  proof (cases "paginated_params params page")
    case (Inl e)
    with 1(2) show ?thesis by auto
  next
    case (Inr pp)
    let ?w = "w\<lparr>sent := sent w @ [page_request url headers pp]\<rparr>"
    show ?thesis
    proof (cases "srv (sent w) (page_request url headers pp)")
      case (Inl e)
      with Inr 1(2) show ?thesis by (auto simp: requests_request_def)
    next
      case r: (Inr r)
      show ?thesis
      proof (cases "status_code r \<noteq> 200")
        case True
        with Inr r 1(2) show ?thesis by (auto simp: requests_request_def)
      next
        case False
        show ?thesis
        proof (cases "response_json r")
          case (Inl e)
          with False Inr r 1(2) show ?thesis by (auto simp: requests_request_def)
        next
          case j: (Inr j)
          show ?thesis
          proof (cases "page_step j results page")
            case (Inl e)
            with j False Inr r 1(2) show ?thesis by (auto simp: requests_request_def)
          next
            case s: (Inr s)
            obtain results' stop where s': "s = (results', stop)" by (cases s)
            show ?thesis
            proof (cases stop)
              case True
              with s s' j False Inr r 1(2) show ?thesis by (auto simp: requests_request_def)
            next
              case stop: False
              with s s' j False Inr r 1(2)
              have "loop srv url headers params results' (page + 1) ?w = Some y"
                by (auto simp: requests_request_def)
              then have "open_files (snd y) = open_files ?w" by (rule 1(1))
              then show ?thesis by simp
            qed
          qed
        qed
      qed
    qed
  qed
qed

lemma make_request_open_files:
  assumes "make_request srv method endpoint data params all_pages store_hash auth_token files w
             = Some (res, w')"
  shows "open_files w' = open_files w"
proof (cases "all_pages \<and> method = Text ''GET''")
  case True
  with assms
  have "make_paginated_request_loop srv (make_url store_hash endpoint)
          (make_headers auth_token files) params [] 1 w = Some (res, w')"
    by (simp add: make_request_def make_paginated_request_def)
  from loop_open_files [OF this] show ?thesis by simp
next
  case False
  with assms show ?thesis
    by (auto simp: make_request_def Let_def requests_request_def split: sum.splits)
qed

lemma make_request_plain:
  assumes "\<not> (all_pages \<and> method = Text ''GET'')"
  shows "make_request srv method endpoint data params all_pages store_hash auth_token files w
           = Some (case srv (sent w)
                          (request_args method (make_url store_hash endpoint)
                             (make_headers auth_token files) data params files) of
                     Inl e \<Rightarrow> Inl e
                   | Inr r \<Rightarrow> response_result r,
                   w\<lparr>sent := sent w @ [request_args method (make_url store_hash endpoint)
                                         (make_headers auth_token files) data params files]\<rparr>)"
  using assms by (auto simp: make_request_def Let_def requests_request_def split: sum.splits)

text \<open>
  C7. A dispatch that is not a paginated GET sends one request. For a response with
  status 200 or 204 the result is the parsed body when the body is not empty, and the
  marker object \<open>{"status": code, "title": "No Content"}\<close> when the body is empty, as
  the body of a 204 is; for every other status the result is the parsed body as it is,
  in the same place as a success value.
\<close>

theorem plain_response_result:
  assumes np: "\<not> (all_pages \<and> method = Text ''GET'')"
      and ans: "srv (sent w)
                  (request_args method (make_url store_hash endpoint)
                     (make_headers auth_token files) data params files) = Inr r"
  shows "make_request srv method endpoint data params all_pages store_hash auth_token files w
           = Some (response_result r,
                   w\<lparr>sent := sent w @ [request_args method (make_url store_hash endpoint)
                                         (make_headers auth_token files) data params files]\<rparr>)
       \<and> ((status_code r = 200 \<or> status_code r = 204) \<and> content r \<noteq> []
            \<longrightarrow> response_result r = response_json r)
       \<and> ((status_code r = 200 \<or> status_code r = 204) \<and> content r = []
            \<longrightarrow> response_result r
                   = Inr (JDict [(''status'', JInt (status_code r)), (''title'', JStr ''No Content'')]))
       \<and> (status_code r \<noteq> 200 \<and> status_code r \<noteq> 204 \<longrightarrow> response_result r = response_json r)"
  using ans make_request_plain [OF np, of srv endpoint data params store_hash auth_token files w]
  by (simp add: response_result_def)

theorem plain_response_result_witness:
  "make_request always_ok (Text ''POST'') ''v3/x'' (JDict []) JNull False ''h'' ''t'' None world0
     = Some (Inr (JDict []),
             \<lparr>sent = [request_args (Text ''POST'') (make_url ''h'' ''v3/x'') (make_headers ''t'' None)
                        (JDict []) JNull None],
              open_files = []\<rparr>)
   \<and> make_request always_empty (Text ''DELETE'') ''v3/x'' JNull JNull False ''h'' ''t'' None world0
     = Some (Inr (JDict [(''status'', JInt 204), (''title'', JStr ''No Content'')]),
             \<lparr>sent = [request_args (Text ''DELETE'') (make_url ''h'' ''v3/x'') (make_headers ''t'' None)
                        JNull JNull None],
              open_files = []\<rparr>)
   \<and> make_request always_fails (Text ''GET'') ''v3/x'' JNull (JDict []) False ''h'' ''t'' None world0
     = Some (Inr (JDict [(''title'', JStr ''Internal Server Error'')]),
             \<lparr>sent = [request_args (Text ''GET'') (make_url ''h'' ''v3/x'') (make_headers ''t'' None)
                        JNull (JDict []) None],
              open_files = []\<rparr>)"
proof -
  have np: "\<not> (False \<and> m = Text ''GET'')" for m by simp
  have a1: "always_ok (sent world0) rq = Inr (ok_response (JDict []))" for rq
    by (simp add: always_ok_def)
  have a2: "always_empty (sent world0) rq = Inr empty_response" for rq
    by (simp add: always_empty_def)
  have a3: "always_fails (sent world0) rq = Inr error_response" for rq
    by (simp add: always_fails_def)
  have r1: "make_request always_ok (Text ''POST'') ''v3/x'' (JDict []) JNull False ''h'' ''t'' None world0
     = Some (Inr (JDict []),
             \<lparr>sent = [request_args (Text ''POST'') (make_url ''h'' ''v3/x'') (make_headers ''t'' None)
                        (JDict []) JNull None],
              open_files = []\<rparr>)"
    using plain_response_result [of False "Text ''POST''" always_ok world0 "''h''" "''v3/x''" "''t''" None
        "JDict []" JNull, OF np a1]
    by (simp add: ok_response_def world0_def)
  have r2: "make_request always_empty (Text ''DELETE'') ''v3/x'' JNull JNull False ''h'' ''t'' None world0
     = Some (Inr (JDict [(''status'', JInt 204), (''title'', JStr ''No Content'')]),
             \<lparr>sent = [request_args (Text ''DELETE'') (make_url ''h'' ''v3/x'') (make_headers ''t'' None)
                        JNull JNull None],
              open_files = []\<rparr>)"
    using plain_response_result [of False "Text ''DELETE''" always_empty world0 "''h''" "''v3/x''" "''t''" None
        JNull JNull, OF np a2]
    by (simp add: empty_response_def world0_def)
  have r3: "make_request always_fails (Text ''GET'') ''v3/x'' JNull (JDict []) False ''h'' ''t'' None world0
     = Some (Inr (JDict [(''title'', JStr ''Internal Server Error'')]),
             \<lparr>sent = [request_args (Text ''GET'') (make_url ''h'' ''v3/x'') (make_headers ''t'' None)
                        JNull (JDict []) None],
              open_files = []\<rparr>)"
    using plain_response_result [of False "Text ''GET''" always_fails world0 "''h''" "''v3/x''" "''t''" None
        JNull "JDict []", OF np a3]
    by (simp add: error_response_def world0_def)
  from r1 r2 r3 show ?thesis by blast
qed

section \<open>Properties of the multipart branch\<close>

text \<open>
  C5, as the spec words it: when the multipart field is a key of the payload, only the
  file is sent. Two dispatches show otherwise. A POST whose payload has the upload field
  and a \<open>name\<close> field sends the file and, as form data beside it, the \<open>name\<close> field.
  A paginated GET with the same payload opens the file and then sends a plain GET with
  no file at all, because the paginated branch does not take \<open>files\<close>.
\<close>

theorem multipart_only_file_counterexample:
  "handle_request sample_fs always_ok ''v3/x'' (Text ''POST'') False (Some (Text ''image_file''))
       upload_payload ''h'' ''t'' False world0
     = Some (Inr (JDict []),
             \<lparr>sent = [\<lparr>req_method = Text ''POST'',
                       req_url = ''https://api.bigcommerce.com/stores/h/v3/x'',
                       req_headers = [(''X-Auth-Token'', Some ''t''),
                                      (''Accept'', Some ''application/json''),
                                      (''Content-Type'', None)],
                       req_json = JNull,
                       req_data = JDict [(''name'', JStr ''x'')],
                       req_params = JNull,
                       req_files = upload_files\<rparr>],
              open_files = [BufferedReader (Path ''img.png'') ''PNG'']\<rparr>)
   \<and> handle_request sample_fs always_ok ''v3/x'' (Text ''GET'') True (Some (Text ''image_file''))
       upload_payload ''h'' ''t'' False world0
     = Some (Inr (JDict [(''data'', JList [])]),
             \<lparr>sent = [\<lparr>req_method = Text ''GET'',
                       req_url = ''https://api.bigcommerce.com/stores/h/v3/x'',
                       req_headers = [(''X-Auth-Token'', Some ''t''),
                                      (''Accept'', Some ''application/json''),
                                      (''Content-Type'', None)],
                       req_json = JNull,
                       req_data = JNull,
                       req_params = JDict [(''name'', JStr ''x''), (''page'', JInt 1)],
                       req_files = None\<rparr>],
              open_files = [BufferedReader (Path ''img.png'') ''PNG'']\<rparr>)"
proof -
  have post: "handle_request sample_fs always_ok ''v3/x'' (Text ''POST'') False (Some (Text ''image_file''))
       upload_payload ''h'' ''t'' False world0
     = Some (Inr (JDict []),
             \<lparr>sent = [\<lparr>req_method = Text ''POST'',
                       req_url = ''https://api.bigcommerce.com/stores/h/v3/x'',
                       req_headers = [(''X-Auth-Token'', Some ''t''),
                                      (''Accept'', Some ''application/json''),
                                      (''Content-Type'', None)],
                       req_json = JNull,
                       req_data = JDict [(''name'', JStr ''x'')],
                       req_params = JNull,
                       req_files = upload_files\<rparr>],
              open_files = [BufferedReader (Path ''img.png'') ''PNG'']\<rparr>)"
    by (simp add: handle_request_def upload_payload_def open_upload_def open_name_def
        sample_fs_def world0_def make_request_def Let_def requests_request_def request_args_def
        files_given_def make_url_def make_headers_def always_ok_def ok_response_def
        response_result_def upload_files_def)
  have get: "handle_request sample_fs always_ok ''v3/x'' (Text ''GET'') True (Some (Text ''image_file''))
       upload_payload ''h'' ''t'' False world0
     = Some (Inr (JDict [(''data'', JList [])]),
             \<lparr>sent = [\<lparr>req_method = Text ''GET'',
                       req_url = ''https://api.bigcommerce.com/stores/h/v3/x'',
                       req_headers = [(''X-Auth-Token'', Some ''t''),
                                      (''Accept'', Some ''application/json''),
                                      (''Content-Type'', None)],
                       req_json = JNull,
                       req_data = JNull,
                       req_params = JDict [(''name'', JStr ''x''), (''page'', JInt 1)],
                       req_files = None\<rparr>],
              open_files = [BufferedReader (Path ''img.png'') ''PNG'']\<rparr>)"
    apply (simp add: handle_request_def upload_payload_def open_upload_def open_name_def
        sample_fs_def world0_def make_request_def Let_def make_paginated_request_def)
    apply (subst make_paginated_request_loop.simps)
    apply (simp add: paginated_params_def requests_request_def page_request_def
        files_given_def make_url_def make_headers_def always_ok_def ok_response_def
        page_step_def list_extend_def total_pages_def dict_get_def)
    done
  from post get show ?thesis by (rule conjI)
qed

text \<open>
  C5, amended: in a dispatch that is not a paginated GET, when the multipart field name
  is a key of the payload mapping whose value is a string naming a file that opens, the
  key is removed from the payload, the file is opened for binary reading, and one request
  is sent with the file under the field name, no JSON body and no JSON content type; the
  fields left in the payload go with it, as form data for POST and PUT and as query
  parameters for GET. When the key is absent, the request goes out with the JSON content
  type, without files, the payload being the JSON body for POST and PUT.
\<close>

theorem multipart_dispatch:
  assumes np: "\<not> (all_pages \<and> method = Text ''GET'')"
  shows "(map_of d k = Some (JStr path) \<and> fs (Path path) = Inr bytes \<longrightarrow>
            handle_request fs srv endpoint method all_pages (Some (Text k)) (JDict d)
                store_hash auth_token verbose w
              = (let f = BufferedReader (Path path) bytes;
                     rest = JDict (filter (\<lambda>kv. fst kv \<noteq> k) d);
                     rq = \<lparr>req_method = method,
                           req_url = make_url store_hash endpoint,
                           req_headers = [(''X-Auth-Token'', Some auth_token),
                                          (''Accept'', Some ''application/json''),
                                          (''Content-Type'', None)],
                           req_json = JNull,
                           req_data = (if method = Text ''POST'' \<or> method = Text ''PUT''
                                       then rest else JNull),
                           req_params = (if method = Text ''GET'' then rest else JNull),
                           req_files = Some [(Some (Text k), f)]\<rparr>
                 in Some (case srv (sent w) rq of Inl e \<Rightarrow> Inl e | Inr r \<Rightarrow> response_result r,
                          \<lparr>sent = sent w @ [rq], open_files = open_files w @ [f]\<rparr>)))
       \<and> (map_of d k = None \<longrightarrow>
            handle_request fs srv endpoint method all_pages (Some (Text k)) (JDict d)
                store_hash auth_token verbose w
              = (let rq = \<lparr>req_method = method,
                           req_url = make_url store_hash endpoint,
                           req_headers = [(''X-Auth-Token'', Some auth_token),
                                          (''Accept'', Some ''application/json''),
                                          (''Content-Type'', Some ''application/json'')],
                           req_json = (if method = Text ''POST'' \<or> method = Text ''PUT''
                                       then JDict d else JNull),
                           req_data = JNull,
                           req_params = (if method = Text ''GET'' then JDict d else JNull),
                           req_files = None\<rparr>
                 in Some (case srv (sent w) rq of Inl e \<Rightarrow> Inl e | Inr r \<Rightarrow> response_result r,
                          \<lparr>sent = sent w @ [rq], open_files = open_files w\<rparr>)))"
proof (intro conjI impI)
  assume "map_of d k = Some (JStr path) \<and> fs (Path path) = Inr bytes"
  then have present: "map_of d k = Some (JStr path)" and opens: "fs (Path path) = Inr bytes"
    by simp_all
  from present have "(k, JStr path) \<in> set d" by (rule map_of_SomeD)
  then have key: "k \<in> fst ` set d" by force
  let ?f = "BufferedReader (Path path) bytes"
  let ?rest = "JDict (filter (\<lambda>kv. fst kv \<noteq> k) d)"
  have up: "open_upload fs (Some (Text k)) (JDict d) w
              = Inr (Some [(Some (Text k), ?f)], ?rest, w\<lparr>open_files := open_files w @ [?f]\<rparr>)"
    using present opens by (simp add: open_upload_def open_name_def)
  show "handle_request fs srv endpoint method all_pages (Some (Text k)) (JDict d)
                store_hash auth_token verbose w
              = (let f = BufferedReader (Path path) bytes;
                     rest = JDict (filter (\<lambda>kv. fst kv \<noteq> k) d);
                     rq = \<lparr>req_method = method,
                           req_url = make_url store_hash endpoint,
                           req_headers = [(''X-Auth-Token'', Some auth_token),
                                          (''Accept'', Some ''application/json''),
                                          (''Content-Type'', None)],
                           req_json = JNull,
                           req_data = (if method = Text ''POST'' \<or> method = Text ''PUT''
                                       then rest else JNull),
                           req_params = (if method = Text ''GET'' then rest else JNull),
                           req_files = Some [(Some (Text k), f)]\<rparr>
                 in Some (case srv (sent w) rq of Inl e \<Rightarrow> Inl e | Inr r \<Rightarrow> response_result r,
                          \<lparr>sent = sent w @ [rq], open_files = open_files w @ [f]\<rparr>))"
    using key up
    by (simp add: handle_request_def make_request_plain [OF np] Let_def request_args_def
        files_given_def make_headers_def)
next
  assume absent: "map_of d k = None"
  then have key: "k \<notin> fst ` set d" by (simp add: map_of_eq_None_iff)
  show "handle_request fs srv endpoint method all_pages (Some (Text k)) (JDict d)
                store_hash auth_token verbose w
              = (let rq = \<lparr>req_method = method,
                           req_url = make_url store_hash endpoint,
                           req_headers = [(''X-Auth-Token'', Some auth_token),
                                          (''Accept'', Some ''application/json''),
                                          (''Content-Type'', Some ''application/json'')],
                           req_json = (if method = Text ''POST'' \<or> method = Text ''PUT''
                                       then JDict d else JNull),
                           req_data = JNull,
                           req_params = (if method = Text ''GET'' then JDict d else JNull),
                           req_files = None\<rparr>
                 in Some (case srv (sent w) rq of Inl e \<Rightarrow> Inl e | Inr r \<Rightarrow> response_result r,
                          \<lparr>sent = sent w @ [rq], open_files = open_files w\<rparr>))"
    using key
    by (simp add: handle_request_def make_request_plain [OF np] Let_def request_args_def
        files_given_def make_headers_def)
qed

theorem multipart_dispatch_witness:
  "map_of [(''image_file'', JStr ''img.png''), (''name'', JStr ''x'')] ''image_file''
     = Some (JStr ''img.png'')
   \<and> sample_fs (Path ''img.png'') = Inr ''PNG''
   \<and> handle_request sample_fs always_ok ''v3/x'' (Text ''PUT'') False (Some (Text ''image_file''))
       (JDict [(''image_file'', JStr ''img.png''), (''name'', JStr ''x'')]) ''h'' ''t'' False world0
     = Some (Inr (JDict []),
             \<lparr>sent = [\<lparr>req_method = Text ''PUT'',
                       req_url = make_url ''h'' ''v3/x'',
                       req_headers = [(''X-Auth-Token'', Some ''t''),
                                      (''Accept'', Some ''application/json''),
                                      (''Content-Type'', None)],
                       req_json = JNull,
                       req_data = JDict [(''name'', JStr ''x'')],
                       req_params = JNull,
                       req_files = upload_files\<rparr>],
              open_files = [BufferedReader (Path ''img.png'') ''PNG'']\<rparr>)
   \<and> map_of [(''name'', JStr ''x'')] ''image_file'' = None
   \<and> handle_request sample_fs always_ok ''v3/x'' (Text ''PUT'') False (Some (Text ''image_file''))
       (JDict [(''name'', JStr ''x'')]) ''h'' ''t'' False world0
     = Some (Inr (JDict []),
             \<lparr>sent = [\<lparr>req_method = Text ''PUT'',
                       req_url = make_url ''h'' ''v3/x'',
                       req_headers = [(''X-Auth-Token'', Some ''t''),
                                      (''Accept'', Some ''application/json''),
                                      (''Content-Type'', Some ''application/json'')],
                       req_json = JDict [(''name'', JStr ''x'')],
                       req_data = JNull,
                       req_params = JNull,
                       req_files = None\<rparr>],
              open_files = []\<rparr>)"
proof -
  have np: "\<not> (False \<and> Text ''PUT'' = Text ''GET'')" by simp
  have present: "map_of [(''image_file'', JStr ''img.png''), (''name'', JStr ''x'')] ''image_file''
     = Some (JStr ''img.png'')" by simp
  have opens: "sample_fs (Path ''img.png'') = Inr ''PNG''" by (simp add: sample_fs_def)
  have absent: "map_of [(''name'', JStr ''x'')] ''image_file'' = None" by simp
  note inst1 = multipart_dispatch [OF np,
      of "[(''image_file'', JStr ''img.png''), (''name'', JStr ''x'')]" "''image_file''"
         "''img.png''" sample_fs "''PNG''" always_ok "''v3/x''" "''h''" "''t''" False world0]
  note inst2 = multipart_dispatch [OF np,
      of "[(''name'', JStr ''x'')]" "''image_file''"
         "''img.png''" sample_fs "''PNG''" always_ok "''v3/x''" "''h''" "''t''" False world0]
  have r1: "handle_request sample_fs always_ok ''v3/x'' (Text ''PUT'') False (Some (Text ''image_file''))
       (JDict [(''image_file'', JStr ''img.png''), (''name'', JStr ''x'')]) ''h'' ''t'' False world0
     = Some (Inr (JDict []),
             \<lparr>sent = [\<lparr>req_method = Text ''PUT'',
                       req_url = make_url ''h'' ''v3/x'',
                       req_headers = [(''X-Auth-Token'', Some ''t''),
                                      (''Accept'', Some ''application/json''),
                                      (''Content-Type'', None)],
                       req_json = JNull,
                       req_data = JDict [(''name'', JStr ''x'')],
                       req_params = JNull,
                       req_files = upload_files\<rparr>],
              open_files = [BufferedReader (Path ''img.png'') ''PNG'']\<rparr>)"
    using inst1 opens
    by (simp add: Let_def world0_def always_ok_def ok_response_def response_result_def
        upload_files_def)
  have r2: "handle_request sample_fs always_ok ''v3/x'' (Text ''PUT'') False (Some (Text ''image_file''))
       (JDict [(''name'', JStr ''x'')]) ''h'' ''t'' False world0
     = Some (Inr (JDict []),
             \<lparr>sent = [\<lparr>req_method = Text ''PUT'',
                       req_url = make_url ''h'' ''v3/x'',
                       req_headers = [(''X-Auth-Token'', Some ''t''),
                                      (''Accept'', Some ''application/json''),
                                      (''Content-Type'', Some ''application/json'')],
                       req_json = JDict [(''name'', JStr ''x'')],
                       req_data = JNull,
                       req_params = JNull,
                       req_files = None\<rparr>],
              open_files = []\<rparr>)"
    using inst2
    by (simp add: Let_def world0_def always_ok_def ok_response_def response_result_def)
  from present opens r1 absent r2 show ?thesis by blast
qed

lemma open_upload_result:
  assumes "open_upload fs multipart_parameter request_data w = Inr (files, rest, w1)"
  shows "\<exists>f. files = Some [(multipart_parameter, f)] \<and> w1 = w\<lparr>open_files := open_files w @ [f]\<rparr>"
  using assms by (auto simp: open_upload_def split: sum.splits prod.splits)

text \<open>
  C8, as the spec words it: the file opened for an upload is closed once the request has
  completed or failed, and is never left open after the HTTP exchange. The program has
  no \<open>close\<close> and no scoped acquisition. After an upload that gets its response, and
  after one whose request fails in the transport, the dispatch returns with the file
  among the files opened and not closed.
\<close>

theorem upload_left_open_counterexample:
  "handle_request sample_fs always_empty ''v3/x'' (Text ''POST'') False (Some (Text ''image_file''))
       upload_payload ''h'' ''t'' False world0
     = Some (Inr (JDict [(''status'', JInt 204), (''title'', JStr ''No Content'')]),
             \<lparr>sent = [request_args (Text ''POST'') (make_url ''h'' ''v3/x'')
                        (make_headers ''t'' upload_files) (JDict [(''name'', JStr ''x'')]) JNull
                        upload_files],
              open_files = [BufferedReader (Path ''img.png'') ''PNG'']\<rparr>)
   \<and> handle_request sample_fs no_network ''v3/x'' (Text ''POST'') False (Some (Text ''image_file''))
       upload_payload ''h'' ''t'' False world0
     = Some (Inl TransportError,
             \<lparr>sent = [request_args (Text ''POST'') (make_url ''h'' ''v3/x'')
                        (make_headers ''t'' upload_files) (JDict [(''name'', JStr ''x'')]) JNull
                        upload_files],
              open_files = [BufferedReader (Path ''img.png'') ''PNG'']\<rparr>)"
  by (simp add: handle_request_def upload_payload_def open_upload_def open_name_def
      sample_fs_def world0_def make_request_def Let_def requests_request_def
      always_empty_def empty_response_def no_network_def response_result_def upload_files_def)

text \<open>
  C8, amended: in a multipart dispatch the file is opened before any request is sent,
  and when it cannot be opened no request is sent at all. The program never closes the
  file: whenever the dispatch returns, with a response or with a failure of the request,
  no close has been performed and the file stands, after the files that were open
  before, among the files opened and not closed.
\<close>

theorem upload_opened_first_never_closed:
  assumes mp: "py_in multipart_parameter request_data = Inr True"
  shows "(\<forall>e. open_upload fs multipart_parameter request_data w = Inl e \<longrightarrow>
            handle_request fs srv endpoint method all_pages multipart_parameter request_data
                store_hash auth_token verbose w = Some (Inl e, w))
       \<and> (\<forall>files rest w1.
            open_upload fs multipart_parameter request_data w = Inr (files, rest, w1) \<longrightarrow>
              (\<exists>f. files = Some [(multipart_parameter, f)]
                 \<and> w1 = w\<lparr>open_files := open_files w @ [f]\<rparr>
                 \<and> handle_request fs srv endpoint method all_pages multipart_parameter request_data
                       store_hash auth_token verbose w
                     = make_request srv method endpoint
                         (if method = Text ''POST'' \<or> method = Text ''PUT'' then rest else JNull)
                         (if method = Text ''GET'' then rest else JNull)
                         all_pages store_hash auth_token files w1
                 \<and> (\<forall>res w2.
                       handle_request fs srv endpoint method all_pages multipart_parameter
                           request_data store_hash auth_token verbose w = Some (res, w2)
                       \<longrightarrow> open_files w2 = open_files w @ [f])))"
proof (intro conjI allI impI)
  fix e
  assume "open_upload fs multipart_parameter request_data w = Inl e"
  with mp
  show "handle_request fs srv endpoint method all_pages multipart_parameter request_data
                store_hash auth_token verbose w = Some (Inl e, w)"
    by (simp add: handle_request_def)
next
  fix files rest w1
  assume up: "open_upload fs multipart_parameter request_data w = Inr (files, rest, w1)"
  from open_upload_result [OF up] obtain f
    where files: "files = Some [(multipart_parameter, f)]"
      and w1: "w1 = w\<lparr>open_files := open_files w @ [f]\<rparr>"
    by blast
  have hr: "handle_request fs srv endpoint method all_pages multipart_parameter request_data
                store_hash auth_token verbose w
              = make_request srv method endpoint
                  (if method = Text ''POST'' \<or> method = Text ''PUT'' then rest else JNull)
                  (if method = Text ''GET'' then rest else JNull)
                  all_pages store_hash auth_token files w1"
    using mp up by (simp add: handle_request_def)
  have kept: "\<forall>res w2.
                handle_request fs srv endpoint method all_pages multipart_parameter
                    request_data store_hash auth_token verbose w = Some (res, w2)
                \<longrightarrow> open_files w2 = open_files w @ [f]"
  proof (intro allI impI)
    fix res w2
    assume "handle_request fs srv endpoint method all_pages multipart_parameter
                    request_data store_hash auth_token verbose w = Some (res, w2)"
    with hr have "make_request srv method endpoint
                  (if method = Text ''POST'' \<or> method = Text ''PUT'' then rest else JNull)
                  (if method = Text ''GET'' then rest else JNull)
                  all_pages store_hash auth_token files w1 = Some (res, w2)"
      by simp
    then have "open_files w2 = open_files w1" by (rule make_request_open_files)
    with w1 show "open_files w2 = open_files w @ [f]" by simp
  qed
  from files w1 hr kept
  show "\<exists>f. files = Some [(multipart_parameter, f)]
                 \<and> w1 = w\<lparr>open_files := open_files w @ [f]\<rparr>
                 \<and> handle_request fs srv endpoint method all_pages multipart_parameter request_data
                       store_hash auth_token verbose w
                     = make_request srv method endpoint
                         (if method = Text ''POST'' \<or> method = Text ''PUT'' then rest else JNull)
                         (if method = Text ''GET'' then rest else JNull)
                         all_pages store_hash auth_token files w1
                 \<and> (\<forall>res w2.
                       handle_request fs srv endpoint method all_pages multipart_parameter
                           request_data store_hash auth_token verbose w = Some (res, w2)
                       \<longrightarrow> open_files w2 = open_files w @ [f])"
    by blast
qed

theorem upload_opened_first_never_closed_witness:
  "py_in (Some (Text ''image_file'')) upload_payload = Inr True
   \<and> open_upload sample_fs (Some (Text ''image_file'')) upload_payload world0
       = Inr (upload_files, JDict [(''name'', JStr ''x'')],
              world0\<lparr>open_files := open_files world0 @ [BufferedReader (Path ''img.png'') ''PNG'']\<rparr>)
   \<and> handle_request sample_fs no_network ''v3/x'' (Text ''POST'') False (Some (Text ''image_file''))
       upload_payload ''h'' ''t'' False world0
     = Some (Inl TransportError,
             \<lparr>sent = [request_args (Text ''POST'') (make_url ''h'' ''v3/x'')
                        (make_headers ''t'' upload_files) (JDict [(''name'', JStr ''x'')]) JNull
                        upload_files],
              open_files = [BufferedReader (Path ''img.png'') ''PNG'']\<rparr>)
   \<and> py_in (Some (Text ''image_file'')) missing_payload = Inr True
   \<and> open_upload sample_fs (Some (Text ''image_file'')) missing_payload world0 = Inl OSError
   \<and> handle_request sample_fs no_network ''v3/x'' (Text ''POST'') False (Some (Text ''image_file''))
       missing_payload ''h'' ''t'' False world0
     = Some (Inl OSError, world0)"
proof -
  have mp1: "py_in (Some (Text ''image_file'')) upload_payload = Inr True"
    by (simp add: upload_payload_def)
  have up1: "open_upload sample_fs (Some (Text ''image_file'')) upload_payload world0
       = Inr (upload_files, JDict [(''name'', JStr ''x'')],
              world0\<lparr>open_files := open_files world0 @ [BufferedReader (Path ''img.png'') ''PNG'']\<rparr>)"
    by (simp add: upload_payload_def open_upload_def open_name_def sample_fs_def upload_files_def)
  have mp2: "py_in (Some (Text ''image_file'')) missing_payload = Inr True"
    by (simp add: missing_payload_def)
  have up2: "open_upload sample_fs (Some (Text ''image_file'')) missing_payload world0 = Inl OSError"
    by (simp add: missing_payload_def open_upload_def open_name_def sample_fs_def)
  note inst1 = upload_opened_first_never_closed [OF mp1, of sample_fs world0 no_network "''v3/x''"
      "Text ''POST''" False "''h''" "''t''" False]
  note inst2 = upload_opened_first_never_closed [OF mp2, of sample_fs world0 no_network "''v3/x''"
      "Text ''POST''" False "''h''" "''t''" False]
  have r1: "handle_request sample_fs no_network ''v3/x'' (Text ''POST'') False (Some (Text ''image_file''))
       upload_payload ''h'' ''t'' False world0
     = Some (Inl TransportError,
             \<lparr>sent = [request_args (Text ''POST'') (make_url ''h'' ''v3/x'')
                        (make_headers ''t'' upload_files) (JDict [(''name'', JStr ''x'')]) JNull
                        upload_files],
              open_files = [BufferedReader (Path ''img.png'') ''PNG'']\<rparr>)"
    using inst1 up1
    by (simp add: make_request_def Let_def requests_request_def no_network_def world0_def)
  have r2: "handle_request sample_fs no_network ''v3/x'' (Text ''POST'') False (Some (Text ''image_file''))
       missing_payload ''h'' ''t'' False world0
     = Some (Inl OSError, world0)"
    using inst2 up2 by simp
  from mp1 up1 r1 mp2 up2 r2 show ?thesis by blast
qed

section \<open>Properties of the shipped command tree\<close>

lemma shipped_commands_eval:
  "(case build_commands commands_structure of
      Inl e \<Rightarrow> False
    | Inr cs \<Rightarrow>
        length (filter (\<lambda>c. map_of (cmd_action c) ''multipartParamter'' = Some (Text ''image_file'')) cs) = 2
        \<and> list_all (\<lambda>c. map_of (cmd_action c) ''multipartParameter'' = None) cs
        \<and> images_add \<in> set cs)"
  by code_simp

lemma update_items_dicts_only:
  "update_items items A = Inr items' \<Longrightarrow> list_all is_dict items'"
proof (induction items A arbitrary: items' rule: update_items.induct)
  case (1 additional_data)
  then show ?case by simp
next
  case (2 item rest additional_data)
  then show ?case by (auto split: sum.splits)
qed simp_all

lemma construct_request_data_shape:
  assumes "construct_request_data loads data unknown_args stdin = Inr (request_data, stdin')"
  shows "\<not> unsupported_shape request_data"
proof -
  from assms obtain d stdin1 where prim: "primary_data loads data stdin = Inr (d, stdin1)"
    by (cases "primary_data loads data stdin") (auto simp: construct_request_data_def)
  show ?thesis
  proof (cases "parse_additional_data loads unknown_args stdin1")
    case (Inl e)
    with assms prim show ?thesis by (simp add: construct_request_data_def)
  next
    case (Inr r)
    obtain A s where r: "r = (A, s)" by (cases r)
    show ?thesis
    proof (cases d)
      case (JList items)
      with assms prim Inr r obtain items' where "update_items items A = Inr items'"
        and "request_data = JList items'"
        by (auto simp: construct_request_data_def split: sum.splits)
      then show ?thesis by (simp add: update_items_dicts_only)
    next
      case (JDict m)
      with assms prim Inr r show ?thesis by (auto simp: construct_request_data_def)
    qed (use assms prim Inr r in \<open>simp_all add: construct_request_data_def\<close>)
  qed
qed

lemma py_in_None_supported:
  assumes "\<not> unsupported_shape request_data"
  shows "py_in None request_data = Inr False"
proof (cases request_data)
  case (JList items)
  with assms have "list_all is_dict items" by simp
  then have "JNull \<notin> set items" by (auto simp: list_all_iff)
  with JList show ?thesis by simp
qed (use assms in simp_all)

lemma handle_request_plain:
  assumes "py_in multipart_parameter request_data = Inr False"
  shows "handle_request fs srv endpoint method all_pages multipart_parameter request_data
             store_hash auth_token verbose w
           = make_request srv method endpoint
               (if method = Text ''POST'' \<or> method = Text ''PUT'' then request_data else JNull)
               (if method = Text ''GET'' then request_data else JNull)
               all_pages store_hash auth_token None w"
  using assms by (simp add: handle_request_def)

lemma action_command_open_files:
  assumes none: "map_of (cmd_action c) ''multipartParameter'' = None"
      and run: "action_command fs srv loads str_format c data unknown_args kwargs
                  store_hash auth_token verbose stdin w = Some (res, w')"
  shows "open_files w' = open_files w"
proof (cases "construct_request_data loads data unknown_args stdin")
  case (Inl e)
  with run show ?thesis by (simp add: action_command_def)
next
  case (Inr r)
  obtain request_data stdin1 where r: "r = (request_data, stdin1)" by (cases r)
  from Inr r have "\<not> unsupported_shape request_data"
    by (simp add: construct_request_data_shape)
  then have plain: "py_in None request_data = Inr False" by (rule py_in_None_supported)
  obtain kwargs' stdin2 where kw: "read_kwargs kwargs stdin1 = (kwargs', stdin2)"
    by (cases "read_kwargs kwargs stdin1")
  show ?thesis
  proof (cases "endpoint_format c = []")
    case True
    with run Inr r kw show ?thesis by (simp add: action_command_def)
  next
    case False
    show ?thesis
    proof (cases "str_format (endpoint_format c) kwargs'")
      case (Inl e)
      with run Inr r kw False show ?thesis by (simp add: action_command_def)
    next
      case ep: (Inr endpoint)
      show ?thesis
      proof (cases "map_of (cmd_action c) ''method''")
        case None
        with run Inr r kw False ep show ?thesis by (simp add: action_command_def)
      next
        case (Some m)
        with run Inr r kw False ep none
        have "handle_request fs srv endpoint m
                (truthy_value (case map_of (cmd_action c) ''allPages'' of
                                 None \<Rightarrow> Flag False | Some v \<Rightarrow> v))
                None request_data store_hash auth_token verbose w = Some (res, w')"
          by (simp add: action_command_def)
        then have "make_request srv m endpoint
               (if m = Text ''POST'' \<or> m = Text ''PUT'' then request_data else JNull)
               (if m = Text ''GET'' then request_data else JNull)
               (truthy_value (case map_of (cmd_action c) ''allPages'' of
                                 None \<Rightarrow> Flag False | Some v \<Rightarrow> v))
               store_hash auth_token None w = Some (res, w')"
          by (simp only: handle_request_plain [OF plain])
        then show ?thesis by (rule make_request_open_files)
      qed
    qed
  qed
qed

text \<open>
  C9. The structure that \<open>main\<close> ships compiles to a list of commands. Two of their
  actions carry the key \<open>multipartParamter\<close>; no action carries \<open>multipartParameter\<close>,
  the key that \<open>action_command\<close> reads, so the multipart field name of every command is
  \<open>None\<close>. With it the membership test on a payload that the merge returned is false, the
  dispatch is the ordinary one with no files, and a command that returns has opened no
  file.
\<close>

theorem shipped_commands_never_multipart:
  "\<exists>cs. build_commands commands_structure = Inr cs
     \<and> length (filter (\<lambda>c. map_of (cmd_action c) ''multipartParamter'' = Some (Text ''image_file'')) cs) = 2
     \<and> (\<forall>c \<in> set cs.
          map_of (cmd_action c) ''multipartParameter'' = None
          \<and> (\<forall>loads data unknown_args stdin request_data stdin'.
                construct_request_data loads data unknown_args stdin = Inr (request_data, stdin')
                \<longrightarrow> py_in (map_of (cmd_action c) ''multipartParameter'') request_data = Inr False
                    \<and> (\<forall>fs srv endpoint method all_pages store_hash auth_token verbose w.
                          handle_request fs srv endpoint method all_pages
                              (map_of (cmd_action c) ''multipartParameter'') request_data
                              store_hash auth_token verbose w
                            = make_request srv method endpoint
                                (if method = Text ''POST'' \<or> method = Text ''PUT''
                                 then request_data else JNull)
                                (if method = Text ''GET'' then request_data else JNull)
                                all_pages store_hash auth_token None w))
          \<and> (\<forall>fs srv loads str_format data unknown_args kwargs store_hash auth_token verbose
                 stdin w res w'.
                action_command fs srv loads str_format c data unknown_args kwargs
                    store_hash auth_token verbose stdin w = Some (res, w')
                \<longrightarrow> open_files w' = open_files w))"
  (is "\<exists>cs. ?built cs \<and> ?two cs \<and> (\<forall>c \<in> set cs. ?each c)")
proof -
  from shipped_commands_eval obtain cs
    where built: "build_commands commands_structure = Inr cs"
      and two: "length (filter (\<lambda>c. map_of (cmd_action c) ''multipartParamter''
                                      = Some (Text ''image_file'')) cs) = 2"
      and none: "list_all (\<lambda>c. map_of (cmd_action c) ''multipartParameter'' = None) cs"
    by (cases "build_commands commands_structure") simp_all
  have each: "?each c" if c: "c \<in> set cs" for c
  proof -
    from none c have key: "map_of (cmd_action c) ''multipartParameter'' = None"
      by (simp add: list_all_iff)
    have plain: "py_in None request_data = Inr False"
      if "construct_request_data loads data unknown_args stdin = Inr (request_data, stdin')"
      for loads data unknown_args stdin request_data stdin'
      using that by (intro py_in_None_supported construct_request_data_shape)
    show ?thesis
      unfolding key
      by (intro conjI allI impI refl plain handle_request_plain)
         (auto intro: plain action_command_open_files [OF key])
  qed
  show ?thesis
  proof (intro exI conjI)
    show "?built cs" by (rule built)
    show "?two cs" by (rule two)
    show "\<forall>c \<in> set cs. ?each c" by (intro ballI) (rule each)
  qed
qed

theorem shipped_commands_never_multipart_witness:
  "(case build_commands commands_structure of Inl e \<Rightarrow> False | Inr cs \<Rightarrow> images_add \<in> set cs)
   \<and> map_of (cmd_action images_add) ''multipartParameter'' = None
   \<and> construct_request_data sample_loads None [''--image_file'', ''img.png''] []
       = Inr (JDict [(''image_file'', JStr ''img.png'')], [])
   \<and> py_in (map_of (cmd_action images_add) ''multipartParameter'')
         (JDict [(''image_file'', JStr ''img.png'')]) = Inr False
   \<and> action_command sample_fs always_ok sample_loads images_format images_add None
         [''--image_file'', ''img.png''] [(''product_id'', ''7'')] ''h'' ''t'' False [] world0
       = Some (Inr (JDict []),
               \<lparr>sent = [request_args (Text ''POST'') (make_url ''h'' ''v3/catalog/products/7/images'')
                          (make_headers ''t'' None) (JDict [(''image_file'', JStr ''img.png'')])
                          JNull None],
                open_files = []\<rparr>)"
proof -
  from shipped_commands_never_multipart obtain cs
    where all: "build_commands commands_structure = Inr cs
     \<and> length (filter (\<lambda>c. map_of (cmd_action c) ''multipartParamter'' = Some (Text ''image_file'')) cs) = 2
     \<and> (\<forall>c \<in> set cs.
          map_of (cmd_action c) ''multipartParameter'' = None
          \<and> (\<forall>loads data unknown_args stdin request_data stdin'.
                construct_request_data loads data unknown_args stdin = Inr (request_data, stdin')
                \<longrightarrow> py_in (map_of (cmd_action c) ''multipartParameter'') request_data = Inr False
                    \<and> (\<forall>fs srv endpoint method all_pages store_hash auth_token verbose w.
                          handle_request fs srv endpoint method all_pages
                              (map_of (cmd_action c) ''multipartParameter'') request_data
                              store_hash auth_token verbose w
                            = make_request srv method endpoint
                                (if method = Text ''POST'' \<or> method = Text ''PUT''
                                 then request_data else JNull)
                                (if method = Text ''GET'' then request_data else JNull)
                                all_pages store_hash auth_token None w))
          \<and> (\<forall>fs srv loads str_format data unknown_args kwargs store_hash auth_token verbose
                 stdin w res w'.
                action_command fs srv loads str_format c data unknown_args kwargs
                    store_hash auth_token verbose stdin w = Some (res, w')
                \<longrightarrow> open_files w' = open_files w))" ..
  from all have built: "build_commands commands_structure = Inr cs" by (rule conjunct1)
  from all have each: "\<forall>c \<in> set cs.
          map_of (cmd_action c) ''multipartParameter'' = None
          \<and> (\<forall>loads data unknown_args stdin request_data stdin'.
                construct_request_data loads data unknown_args stdin = Inr (request_data, stdin')
                \<longrightarrow> py_in (map_of (cmd_action c) ''multipartParameter'') request_data = Inr False
                    \<and> (\<forall>fs srv endpoint method all_pages store_hash auth_token verbose w.
                          handle_request fs srv endpoint method all_pages
                              (map_of (cmd_action c) ''multipartParameter'') request_data
                              store_hash auth_token verbose w
                            = make_request srv method endpoint
                                (if method = Text ''POST'' \<or> method = Text ''PUT''
                                 then request_data else JNull)
                                (if method = Text ''GET'' then request_data else JNull)
                                all_pages store_hash auth_token None w))
          \<and> (\<forall>fs srv loads str_format data unknown_args kwargs store_hash auth_token verbose
                 stdin w res w'.
                action_command fs srv loads str_format c data unknown_args kwargs
                    store_hash auth_token verbose stdin w = Some (res, w')
                \<longrightarrow> open_files w' = open_files w)"
    by (rule conjunct2 [OF conjunct2])
  from shipped_commands_eval built have mem: "images_add \<in> set cs" by simp
  with built have registered:
    "(case build_commands commands_structure of Inl e \<Rightarrow> False | Inr cs \<Rightarrow> images_add \<in> set cs)"
    by simp
  from each mem have key: "map_of (cmd_action images_add) ''multipartParameter'' = None"
    by blast
  have merged: "construct_request_data sample_loads None [''--image_file'', ''img.png''] []
       = Inr (JDict [(''image_file'', JStr ''img.png'')], [])"
    by (simp add: construct_request_data_def primary_data_def parse_additional_data_def
        parse_input_data_def loads_or_text_def sample_loads_def object_text_def array_text_def
        flag_key_def lstrip_dashes_def replace_dash_def)
  from each mem merged
  have plain: "py_in (map_of (cmd_action images_add) ''multipartParameter'')
         (JDict [(''image_file'', JStr ''img.png'')]) = Inr False"
    by blast
  have run: "action_command sample_fs always_ok sample_loads images_format images_add None
         [''--image_file'', ''img.png''] [(''product_id'', ''7'')] ''h'' ''t'' False [] world0
       = Some (Inr (JDict []),
               \<lparr>sent = [request_args (Text ''POST'') (make_url ''h'' ''v3/catalog/products/7/images'')
                          (make_headers ''t'' None) (JDict [(''image_file'', JStr ''img.png'')])
                          JNull None],
                open_files = []\<rparr>)"
    using merged
    apply (simp add: action_command_def)
    apply (simp add: images_add_def images_format_def handle_request_def make_request_def Let_def
        requests_request_def always_ok_def ok_response_def response_result_def world0_def)
    done
  from registered key merged plain run show ?thesis by blast
qed

end
